theory Spec2Isabelle
  imports Main
begin

section \<open>Common conventions\<close>

text \<open>
  Timestamps and counters are JavaScript numbers holding integers (\<open>Date.now()\<close>, counts,
  millisecond durations); they are modelled as \<open>int\<close>. Every call of \<open>Date.now()\<close> is a
  parameter \<open>now\<close> of the function that reads the clock. An optional numeric field
  (\<open>blockedUntil?: number\<close>) is an \<open>int option\<close>; JavaScript treats \<open>undefined\<close> and \<open>0\<close>
  as false in a condition, which \<open>truthy\<close> writes out. A string tested in a condition is
  false when it is \<open>null\<close> or empty (\<open>truthyStr\<close>). A \<open>Map\<close> is a partial function; an
  object read from a \<open>Map\<close> and mutated in place is written back into the map by the model.
\<close>

definition truthy :: "int option \<Rightarrow> bool" where
  "truthy v = (case v of None \<Rightarrow> False | Some n \<Rightarrow> n \<noteq> 0)"

definition orElse :: "int option \<Rightarrow> int \<Rightarrow> int" where
  \<comment> \<open>\<open>a || b\<close> on an optional number\<close>
  "orElse v d = (case v of None \<Rightarrow> d | Some n \<Rightarrow> if n \<noteq> 0 then n else d)"

definition truthyStr :: "string option \<Rightarrow> bool" where
  "truthyStr v = (case v of None \<Rightarrow> False | Some s \<Rightarrow> s \<noteq> [])"

section \<open>lib/rateLimit.ts: in-memory rate limiting and account lockout\<close>

record RateLimitRule =
  windowMs :: int
  maxRequests :: int
  blockDurationMs :: "int option"

record RateLimitEntry =
  count :: int
  windowStart :: int
  blockedUntil :: "int option"

record AccountLockoutEntry =
  failedAttempts :: int
  lastFailure :: int
  lockedUntil :: "int option"

type_synonym RateLimitStore = "string \<rightharpoonup> RateLimitEntry"

type_synonym AccountLockoutStore = "string \<rightharpoonup> AccountLockoutEntry"

datatype RuleName = LOGIN | REGISTRATION | AI_ANALYZE | AI_IDENTIFY | GENERAL

fun RATE_LIMIT_RULES :: "RuleName \<Rightarrow> RateLimitRule" where
  "RATE_LIMIT_RULES LOGIN =
     \<lparr>windowMs = 15 * 60 * 1000, maxRequests = 5, blockDurationMs = Some (15 * 60 * 1000)\<rparr>"
| "RATE_LIMIT_RULES REGISTRATION =
     \<lparr>windowMs = 60 * 60 * 1000, maxRequests = 3, blockDurationMs = Some (60 * 60 * 1000)\<rparr>"
| "RATE_LIMIT_RULES AI_ANALYZE =
     \<lparr>windowMs = 60 * 1000, maxRequests = 10, blockDurationMs = Some (5 * 60 * 1000)\<rparr>"
| "RATE_LIMIT_RULES AI_IDENTIFY =
     \<lparr>windowMs = 60 * 1000, maxRequests = 5, blockDurationMs = Some (5 * 60 * 1000)\<rparr>"
| "RATE_LIMIT_RULES GENERAL =
     \<lparr>windowMs = 60 * 1000, maxRequests = 60, blockDurationMs = Some (60 * 1000)\<rparr>"

fun ruleNameStr :: "RuleName \<Rightarrow> string" where
  \<comment> \<open>the property keys of \<open>RATE_LIMIT_RULES\<close>, as strings\<close>
  "ruleNameStr LOGIN = ''LOGIN''"
| "ruleNameStr REGISTRATION = ''REGISTRATION''"
| "ruleNameStr AI_ANALYZE = ''AI_ANALYZE''"
| "ruleNameStr AI_IDENTIFY = ''AI_IDENTIFY''"
| "ruleNameStr GENERAL = ''GENERAL''"

datatype LimitType = Ip | User

fun limitTypeStr :: "LimitType \<Rightarrow> string" where
  \<comment> \<open>the string literal type \<open>'ip' | 'user'\<close>\<close>
  "limitTypeStr Ip = ''ip''"
| "limitTypeStr User = ''user''"

text \<open>\<open>ACCOUNT_LOCKOUT_CONFIG\<close>\<close>

definition maxFailedAttempts :: int where
  "maxFailedAttempts = 5"

definition lockoutDurationMs :: int where
  "lockoutDurationMs = 30 * 60 * 1000"

definition failureWindowMs :: int where
  "failureWindowMs = 15 * 60 * 1000"

definition getRateLimitKey :: "string \<Rightarrow> string \<Rightarrow> string \<Rightarrow> string" where
  \<comment> \<open>\<open>getRateLimitKey(type, identifier, rule)\<close>: the template \<open>type:rule:identifier\<close>\<close>
  "getRateLimitKey type identifier rule = type @ '':'' @ rule @ '':'' @ identifier"

text \<open>
  Two records cannot share a field name, so a field whose name is taken already carries a
  suffix: \<open>lockedUntilR\<close> and \<open>lockedUntilS\<close> are the \<open>lockedUntil\<close> of the results of
  \<open>recordFailedLogin\<close> and \<open>isAccountLocked\<close>, \<open>isLocked\<close> is the \<open>locked\<close> of the latter,
  \<open>limitedM\<close> the \<open>limited\<close> of the middleware's result.
\<close>

record LimitedResult =
  limited :: bool
  resetTime :: "int option"
  remaining :: "int option"

definition isRateLimited ::
  "int \<Rightarrow> RateLimitStore \<Rightarrow> string \<Rightarrow> RateLimitRule \<Rightarrow> LimitedResult \<times> RateLimitStore" where
  "isRateLimited now store key rule =
     (case store key of
        None \<Rightarrow>
          (\<lparr>limited = False, resetTime = None, remaining = Some (maxRequests rule - 1)\<rparr>,
           store(key \<mapsto> \<lparr>count = 1, windowStart = now, blockedUntil = None\<rparr>))
      | Some entry \<Rightarrow>
          if truthy (blockedUntil entry) \<and> now < orElse (blockedUntil entry) 0 then
            (\<lparr>limited = True, resetTime = blockedUntil entry, remaining = None\<rparr>, store)
          else if now - windowStart entry > windowMs rule then
            (\<lparr>limited = False, resetTime = None, remaining = Some (maxRequests rule - 1)\<rparr>,
             store(key \<mapsto> \<lparr>count = 1, windowStart = now, blockedUntil = None\<rparr>))
          else
            let entry1 = entry\<lparr>count := count entry + 1\<rparr> in
            if count entry1 > maxRequests rule then
              let entry2 =
                (if truthy (blockDurationMs rule)
                 then entry1\<lparr>blockedUntil := Some (now + orElse (blockDurationMs rule) 0)\<rparr>
                 else entry1)
              in (\<lparr>limited = True,
                   resetTime = Some (orElse (blockedUntil entry2) (windowStart entry2 + windowMs rule)),
                   remaining = None\<rparr>,
                  store(key \<mapsto> entry2))
            else
              (\<lparr>limited = False, resetTime = None,
                remaining = Some (maxRequests rule - count entry1)\<rparr>,
               store(key \<mapsto> entry1)))"

record FailedLoginResult =
  locked :: bool
  lockedUntilR :: "int option"
  attemptsRemaining :: "int option"

definition recordFailedLogin ::
  "int \<Rightarrow> AccountLockoutStore \<Rightarrow> string \<Rightarrow> FailedLoginResult \<times> AccountLockoutStore" where
  "recordFailedLogin now store email =
     (let entry0 = (case store email of
                      Some e \<Rightarrow> e
                    | None \<Rightarrow> \<lparr>failedAttempts = 0, lastFailure = 0, lockedUntil = None\<rparr>);
          entry1 = (if now - lastFailure entry0 > failureWindowMs
                    then entry0\<lparr>failedAttempts := 0\<rparr> else entry0);
          entry2 = entry1\<lparr>failedAttempts := failedAttempts entry1 + 1, lastFailure := now\<rparr>
      in if failedAttempts entry2 \<ge> maxFailedAttempts then
           let entry3 = entry2\<lparr>lockedUntil := Some (now + lockoutDurationMs)\<rparr>
           in (\<lparr>locked = True, lockedUntilR = lockedUntil entry3, attemptsRemaining = None\<rparr>,
               store(email \<mapsto> entry3))
         else
           (\<lparr>locked = False, lockedUntilR = None,
             attemptsRemaining = Some (maxFailedAttempts - failedAttempts entry2)\<rparr>,
            store(email \<mapsto> entry2)))"

record LockStatus =
  isLocked :: bool
  lockedUntilS :: "int option"

definition isAccountLocked ::
  "int \<Rightarrow> AccountLockoutStore \<Rightarrow> string \<Rightarrow> LockStatus \<times> AccountLockoutStore" where
  "isAccountLocked now store email =
     (case store email of
        None \<Rightarrow> (\<lparr>isLocked = False, lockedUntilS = None\<rparr>, store)
      | Some entry \<Rightarrow>
          if \<not> truthy (lockedUntil entry) then
            (\<lparr>isLocked = False, lockedUntilS = None\<rparr>, store)
          else if now \<ge> orElse (lockedUntil entry) 0 then
            (\<lparr>isLocked = False, lockedUntilS = None\<rparr>,
             store(email \<mapsto> entry\<lparr>lockedUntil := None, failedAttempts := 0\<rparr>))
          else
            (\<lparr>isLocked = True, lockedUntilS = lockedUntil entry\<rparr>, store))"

definition clearFailedLogins :: "AccountLockoutStore \<Rightarrow> string \<Rightarrow> AccountLockoutStore" where
  "clearFailedLogins store email =
     (case store email of
        None \<Rightarrow> store
      | Some entry \<Rightarrow> store(email \<mapsto> entry\<lparr>failedAttempts := 0, lockedUntil := None\<rparr>))"


subsection \<open>Strings and numbers of the JavaScript runtime\<close>

text \<open>
  Strings are lists of 8-bit characters. \<open>numToString\<close> is \<open>Number.prototype.toString\<close> on
  an integer (decimal digits, a leading minus sign). \<open>ceilDiv1000 x\<close> is
  \<open>Math.ceil(x / 1000)\<close> on an integer \<open>x\<close>.
\<close>

fun natToString :: "nat \<Rightarrow> string" where
  "natToString n =
     (if n < 10 then [''0123456789'' ! n]
      else natToString (n div 10) @ [''0123456789'' ! (n mod 10)])"

declare natToString.simps [simp del]

definition numToString :: "int \<Rightarrow> string" where
  "numToString i = (if i < 0 then ''-'' @ natToString (nat (- i)) else natToString (nat i))"

definition ceilDiv1000 :: "int \<Rightarrow> int" where
  "ceilDiv1000 x = - ((- x) div 1000)"

definition isWhitespace :: "char \<Rightarrow> bool" where
  \<comment> \<open>the white space and line terminators of \<open>trim\<close> and \<open>parseInt\<close> below code point 256\<close>
  "isWhitespace c = (c \<in> set [CHR 0x09, CHR 0x0A, CHR 0x0B, CHR 0x0C, CHR 0x0D, CHR 0x20, CHR 0xA0])"

definition trim :: "string \<Rightarrow> string" where
  "trim s = rev (dropWhile isWhitespace (rev (dropWhile isWhitespace s)))"

fun splitOn :: "char \<Rightarrow> string \<Rightarrow> string list" where
  \<comment> \<open>\<open>s.split(d)\<close> for a one-character separator: never the empty list\<close>
  "splitOn d [] = [[]]"
| "splitOn d (c # cs) =
     (if c = d then [] # splitOn d cs
      else (case splitOn d cs of [] \<Rightarrow> [[c]] | x # xs \<Rightarrow> (c # x) # xs))"

definition firstField :: "char \<Rightarrow> string \<Rightarrow> string" where
  \<comment> \<open>\<open>s.split(d)[0]\<close>\<close>
  "firstField d s = (case splitOn d s of [] \<Rightarrow> [] | x # xs \<Rightarrow> x)"

fun startsWith :: "string \<Rightarrow> string \<Rightarrow> bool" where
  "startsWith s [] = True"
| "startsWith [] (c # cs) = False"
| "startsWith (x # xs) (c # cs) = (x = c \<and> startsWith xs cs)"

fun includesStr :: "string \<Rightarrow> string \<Rightarrow> bool" where
  \<comment> \<open>\<open>hay.includes(needle)\<close>\<close>
  "includesStr [] needle = (needle = [])"
| "includesStr (x # xs) needle = (startsWith (x # xs) needle \<or> includesStr xs needle)"

definition isDigit :: "char \<Rightarrow> bool" where
  "isDigit c = (c \<in> set ''0123456789'')"

definition digitVal :: "char \<Rightarrow> int" where
  "digitVal c = int (of_char c) - 48"

definition parseInt10 :: "string \<Rightarrow> int option" where
  \<comment> \<open>\<open>parseInt(s, 10)\<close>: leading white space, an optional sign, the longest run of
      decimal digits; \<open>None\<close> is \<open>NaN\<close> (no digit). The value is the exact integer; the
      runtime rounds it to a double, which keeps every comparison with a smaller
      exactly representable bound.\<close>
  "parseInt10 s =
     (let s1 = dropWhile isWhitespace s;
          neg = (case s1 of [] \<Rightarrow> False | c # cs \<Rightarrow> c = CHR ''-'');
          s2 = (case s1 of [] \<Rightarrow> [] | c # cs \<Rightarrow> if c = CHR ''-'' \<or> c = CHR ''+'' then cs else s1);
          z = takeWhile isDigit s2
      in if z = [] then None
         else Some ((if neg then - 1 else 1) * foldl (\<lambda>acc c. acc * 10 + digitVal c) 0 z))"

definition upperChar :: "char \<Rightarrow> char" where
  "upperChar c =
     (case map_of (zip ''abcdefghijklmnopqrstuvwxyz'' ''ABCDEFGHIJKLMNOPQRSTUVWXYZ'') c of
        None \<Rightarrow> c | Some u \<Rightarrow> u)"

definition lowerChar :: "char \<Rightarrow> char" where
  "lowerChar c =
     (case map_of (zip ''ABCDEFGHIJKLMNOPQRSTUVWXYZ'' ''abcdefghijklmnopqrstuvwxyz'') c of
        None \<Rightarrow> c | Some l \<Rightarrow> l)"

definition toUpperCase :: "string \<Rightarrow> string" where
  \<comment> \<open>on the letters a to z; other characters are kept\<close>
  "toUpperCase s = map upperChar s"

definition toLowerCase :: "string \<Rightarrow> string" where
  \<comment> \<open>on the letters A to Z; other characters are kept\<close>
  "toLowerCase s = map lowerChar s"


definition orElseStr :: "string option \<Rightarrow> string \<Rightarrow> string" where
  \<comment> \<open>\<open>a || b\<close> on an optional string\<close>
  "orElseStr v d = (case v of None \<Rightarrow> d | Some s \<Rightarrow> if s \<noteq> [] then s else d)"

subsection \<open>Requests and responses\<close>

text \<open>
  A request is its method, its headers (looked up by lower-case name, \<open>None\<close> for
  \<open>null\<close>) and the path of its URL. A response is its status, the headers it sets in
  order, and its body. A header holding \<open>new Date(t).toISOString()\<close> is kept as
  \<open>IsoTime t\<close>; \<open>toISOString\<close> raises \<open>RangeError\<close> outside the range of \<open>Date\<close>.
\<close>

record NextRequest =
  httpMethod :: string  \<comment> \<open>\<open>method\<close>\<close>
  headers :: "string \<rightharpoonup> string"
  pathname :: string

datatype HeaderValue = Text string | IsoTime int

datatype ResponseBody = TextBody string | JsonBody "(string \<times> string) list"

record NextResponse =
  status :: int
  respHeaders :: "(string \<times> HeaderValue) list"
  body :: ResponseBody

datatype error = RangeError | RedisError | PipelineFailed

definition maxTimeValue :: int where
  "maxTimeValue = 8640000000000000"

subsection \<open>lib/rateLimit.ts, continued: client address, rejection response, middleware\<close>

definition getClientIP :: "NextRequest \<Rightarrow> string" where
  "getClientIP request =
     (let forwarded = headers request ''x-forwarded-for'';
          real = headers request ''x-real-ip'';
          connectingIP = headers request ''x-connecting-ip''
      in orElseStr (map_option (\<lambda>f. trim (firstField (CHR '','') f)) forwarded)
           (orElseStr real (orElseStr connectingIP ''unknown'')))"

definition createRateLimitResponse :: "int \<Rightarrow> int option \<Rightarrow> string \<Rightarrow> error + NextResponse" where
  "createRateLimitResponse now reset message =
     (if truthy reset then
        let r = orElse reset 0;
            retryAfter = numToString (ceilDiv1000 (r - now))
        in if r < - maxTimeValue \<or> maxTimeValue < r then Inl RangeError
           else Inr \<lparr>status = 429,
                     respHeaders = [(''Retry-After'', Text retryAfter), (''X-RateLimit-Reset'', IsoTime r)],
                     body = JsonBody [(''error'', message)]\<rparr>
      else Inr \<lparr>status = 429,
                respHeaders = [(''Retry-After'', Text ''60'')],
                body = JsonBody [(''error'', message)]\<rparr>)"

record MiddlewareResult =
  limitedM :: bool
  response :: "NextResponse option"

definition limitMessage :: "LimitType \<Rightarrow> string" where
  "limitMessage type =
     (if type = User then ''Too many requests from your account. Please try again later.''
      else ''Too many requests from your IP address. Please try again later.'')"

definition rateLimitMiddleware ::
  "int \<Rightarrow> int \<Rightarrow> RateLimitStore \<Rightarrow> RuleName \<Rightarrow> string \<Rightarrow> LimitType
     \<Rightarrow> (error + MiddlewareResult) \<times> RateLimitStore" where
  \<comment> \<open>\<open>now\<close> is the clock read by \<open>isRateLimited\<close>, \<open>nowR\<close> the one read when the
      response is built\<close>
  "rateLimitMiddleware now nowR store ruleName identifier type =
     (let rule = RATE_LIMIT_RULES ruleName;
          key = getRateLimitKey (limitTypeStr type) identifier (ruleNameStr ruleName);
          (result, store') = isRateLimited now store key rule
      in if limited result then
           (case createRateLimitResponse nowR (resetTime result) (limitMessage type) of
              Inl e \<Rightarrow> (Inl e, store')
            | Inr resp \<Rightarrow> (Inr \<lparr>limitedM = True, response = Some resp\<rparr>, store'))
         else (Inr \<lparr>limitedM = False, response = None\<rparr>, store'))"

section \<open>lib/csrf.ts: Origin and Referer validation\<close>

text \<open>
  \<open>new URL(referer)\<close> is the platform's URL parser; it is the parameter \<open>parseUrl\<close>,
  which returns \<open>None\<close> where the constructor throws. \<open>process.env.ALLOWED_ORIGINS\<close> is the
  parameter \<open>envOrigins\<close>.
\<close>

record URL =
  protocol :: string
  host :: string

definition getAllowedOrigins :: "string option \<Rightarrow> string list" where
  "getAllowedOrigins envOrigins =
     (if truthyStr envOrigins
      then map trim (splitOn (CHR '','') (orElseStr envOrigins []))
      else [''http://localhost:3000'', ''http://127.0.0.1:3000'', ''https://localhost:3000''])"

definition validateCSRF :: "string option \<Rightarrow> (string \<Rightarrow> URL option) \<Rightarrow> NextRequest \<Rightarrow> bool" where
  "validateCSRF envOrigins parseUrl request =
     (let allowedOrigins = getAllowedOrigins envOrigins;
          origin = headers request ''origin'';
          referer = headers request ''referer''
      in if truthyStr origin then orElseStr origin [] \<in> set allowedOrigins
         else if truthyStr referer then
           (case parseUrl (orElseStr referer []) of
              None \<Rightarrow> False
            | Some refererUrl \<Rightarrow>
                (protocol refererUrl @ ''//'' @ host refererUrl) \<in> set allowedOrigins)
         else False)"

definition csrfProtection ::
  "string option \<Rightarrow> (string \<Rightarrow> URL option) \<Rightarrow> NextRequest \<Rightarrow> NextResponse option" where
  "csrfProtection envOrigins parseUrl request =
     (let m = toUpperCase (httpMethod request)
      in if m \<notin> set [''POST'', ''PUT'', ''DELETE'', ''PATCH''] then None
         else if \<not> validateCSRF envOrigins parseUrl request then
           Some \<lparr>status = 403, respHeaders = [],
                 body = JsonBody
                   [(''error'', ''CSRF validation failed. Request rejected for security reasons.''),
                    (''code'', ''CSRF_VALIDATION_FAILED'')]\<rparr>
         else None)"

section \<open>lib/redisRateLimit.ts: durable limiter with in-memory fallback\<close>

text \<open>
  The module's \<open>RateLimitRule\<close> has the fields \<open>windowMs\<close> and \<open>maxRequests\<close> only; its
  rules are values of the record above with no block duration. The entries of
  \<open>fallbackStore\<close> (\<open>count\<close>, \<open>resetTime\<close>) and the fields of its result are prefixed where
  the names are taken already.

  The durable store is outside the process. \<open>this.redis\<close> is \<open>None\<close> when no client was
  created; otherwise the model is given how the pipeline's \<open>exec()\<close> settles for this
  call: it rejects (a connection error, a timeout raised by the client), it resolves to
  \<open>null\<close>, or it resolves to replies, of which the code reads the \<open>zcard\<close> count (\<open>None\<close>
  when that reply is missing).
\<close>

record FallbackRecord =
  fbCount :: int
  fbResetTime :: int

type_synonym FallbackStore = "string \<rightharpoonup> FallbackRecord"

record RateLimitResult =
  success :: bool
  totalCount :: int
  remainingRequests :: int
  resetTimeR :: int

datatype PipelineOutcome = Rejects | ResolvesNull | Replies "int option"

definition checkRateLimitMemory ::
  "int \<Rightarrow> FallbackStore \<Rightarrow> string \<Rightarrow> RateLimitRule \<Rightarrow> string \<Rightarrow> RateLimitResult \<times> FallbackStore" where
  "checkRateLimitMemory now fallbackStore identifier rule prefix =
     (let key = prefix @ '':'' @ identifier;
          fresh = (\<lparr>success = True, totalCount = 1, remainingRequests = maxRequests rule - 1,
                     resetTimeR = now + windowMs rule\<rparr>,
                   fallbackStore(key \<mapsto> \<lparr>fbCount = 1, fbResetTime = now + windowMs rule\<rparr>))
      in case fallbackStore key of
           None \<Rightarrow> fresh
         | Some record \<Rightarrow>
             if now > fbResetTime record then fresh
             else
               let record1 = record\<lparr>fbCount := fbCount record + 1\<rparr>
               in (\<lparr>success = (fbCount record1 \<le> maxRequests rule),
                    totalCount = fbCount record1,
                    remainingRequests = max 0 (maxRequests rule - fbCount record1),
                    resetTimeR = fbResetTime record1\<rparr>,
                   fallbackStore(key \<mapsto> record1)))"

definition redisWindow :: "PipelineOutcome \<Rightarrow> int \<Rightarrow> RateLimitRule \<Rightarrow> error + RateLimitResult" where
  \<comment> \<open>the body of the \<open>try\<close> block of \<open>checkRateLimit\<close>; \<open>Inl\<close> is an exception raised in it\<close>
  "redisWindow outcome now rule =
     (case outcome of
        Rejects \<Rightarrow> Inl RedisError
      | ResolvesNull \<Rightarrow> Inl PipelineFailed
      | Replies c \<Rightarrow>
          let total = orElse c 0
          in Inr \<lparr>success = (total \<le> maxRequests rule),
                  totalCount = total,
                  remainingRequests = max 0 (maxRequests rule - total),
                  resetTimeR = now + windowMs rule\<rparr>)"

definition checkRateLimit ::
  "PipelineOutcome option \<Rightarrow> int \<Rightarrow> int \<Rightarrow> FallbackStore \<Rightarrow> string \<Rightarrow> RateLimitRule \<Rightarrow> string
     \<Rightarrow> RateLimitResult \<times> FallbackStore" where
  \<comment> \<open>\<open>now\<close> is the clock read on entry, \<open>nowM\<close> the one read by the fallback\<close>
  "checkRateLimit redis now nowM fallbackStore identifier rule prefix =
     (case redis of
        None \<Rightarrow> checkRateLimitMemory nowM fallbackStore identifier rule prefix
      | Some outcome \<Rightarrow>
          (case redisWindow outcome now rule of
             Inr result \<Rightarrow> (result, fallbackStore)
           | Inl e \<Rightarrow> checkRateLimitMemory nowM fallbackStore identifier rule prefix))"

text \<open>
  \<open>await pipe.exec()\<close> resumes the call only when the promise settles, and the code puts
  no timeout on it. \<open>checkRateLimit\<close> above is the call from the point where the promise
  has settled. \<open>checkRateLimitAwait\<close> adds the wait: the store's promise either settles
  with an outcome or never does, and in the second case the call never returns, which is
  the result \<open>None\<close>.
\<close>

datatype 'a Awaited = NeverSettles | Settles 'a

definition checkRateLimitAwait ::
  "PipelineOutcome Awaited option \<Rightarrow> int \<Rightarrow> int \<Rightarrow> FallbackStore \<Rightarrow> string \<Rightarrow> RateLimitRule
     \<Rightarrow> string \<Rightarrow> (RateLimitResult \<times> FallbackStore) option" where
  "checkRateLimitAwait redis now nowM fallbackStore identifier rule prefix =
     (case redis of
        None \<Rightarrow> Some (checkRateLimit None now nowM fallbackStore identifier rule prefix)
      | Some NeverSettles \<Rightarrow> None
      | Some (Settles outcome) \<Rightarrow>
          Some (checkRateLimit (Some outcome) now nowM fallbackStore identifier rule prefix))"

datatype EndpointRule = general | auth | upload | ai

fun REDIS_RATE_LIMIT_RULES :: "EndpointRule \<Rightarrow> RateLimitRule" where
  \<comment> \<open>the \<open>RATE_LIMIT_RULES\<close> of this module\<close>
  "REDIS_RATE_LIMIT_RULES general =
     \<lparr>windowMs = 15 * 60 * 1000, maxRequests = 100, blockDurationMs = None\<rparr>"
| "REDIS_RATE_LIMIT_RULES auth =
     \<lparr>windowMs = 15 * 60 * 1000, maxRequests = 5, blockDurationMs = None\<rparr>"
| "REDIS_RATE_LIMIT_RULES upload =
     \<lparr>windowMs = 60 * 60 * 1000, maxRequests = 20, blockDurationMs = None\<rparr>"
| "REDIS_RATE_LIMIT_RULES ai =
     \<lparr>windowMs = 60 * 60 * 1000, maxRequests = 10, blockDurationMs = None\<rparr>"


section \<open>lib/dosProtection.ts: the admission gate\<close>

record DoSProtectionConfig =
  enabled :: bool
  maxRequestSize :: int
  maxConcurrentRequests :: int
  requestTimeout :: int
  suspiciousPatternDetection :: bool

definition mkConfig :: "string option \<Rightarrow> DoSProtectionConfig" where
  \<comment> \<open>the constructor's configuration; the argument is \<open>process.env.NODE_ENV\<close>\<close>
  "mkConfig nodeEnv =
     \<lparr>enabled = (nodeEnv = Some ''production''),
      maxRequestSize = 10 * 1024 * 1024,
      maxConcurrentRequests = 50,
      requestTimeout = 30000,
      suspiciousPatternDetection = True\<rparr>"

record RequestMetrics =
  startTime :: int
  sizeBytes :: "int option"  \<comment> \<open>\<open>size\<close>; \<open>None\<close> is \<open>NaN\<close>\<close>
  ip :: string
  userAgent :: string
  path :: string

text \<open>
  A timer set by \<open>setTimeout\<close> is recorded with its delay and what it will do; the gate
  itself never waits for one.
\<close>

datatype TimerAction = DeleteActive string | DecrementCount string | UnmarkSuspicious string

record DoSState =
  activeRequests :: "(string \<times> RequestMetrics) list"  \<comment> \<open>a \<open>Map\<close> in insertion order\<close>
  suspiciousIPs :: "string set"
  requestCounts :: "string \<rightharpoonup> int"
  fallbackStore :: FallbackStore  \<comment> \<open>of the shared \<open>redisRateLimiter\<close>\<close>
  timers :: "(int \<times> TimerAction) list"

text \<open>The clock readings of one call of \<open>protect\<close>, in the order the code takes them.\<close>

record Clock =
  tRequestId :: int
  tLimiter :: int
  tFallback :: int
  tRetryAfter :: int
  tStart :: int

text \<open>
  The steps of the \<open>try\<close> block of \<open>protect\<close>. An exception of the runtime raised while a
  step runs is the parameter \<open>fault\<close>: \<open>Some s\<close> raises on entry to step \<open>s\<close>, \<open>None\<close>
  raises nowhere. \<open>SizeRead\<close> is the inside of \<open>checkRequestSize\<close>, which has a handler of
  its own.
\<close>

datatype Step = BlockList | SizeRead | SizeCheck | Concurrency | RateLimit | Anomaly | Track

definition mapSet :: "'k \<Rightarrow> 'v \<Rightarrow> ('k \<times> 'v) list \<Rightarrow> ('k \<times> 'v) list" where
  \<comment> \<open>\<open>Map.prototype.set\<close>: an existing key keeps its place\<close>
  "mapSet k v m =
     (if k \<in> set (map fst m) then map (\<lambda>(k', v'). if k' = k then (k, v) else (k', v')) m
      else m @ [(k, v)])"

definition dosGetClientIP :: "NextRequest \<Rightarrow> string" where
  \<comment> \<open>\<open>DoSProtectionService.getClientIP\<close>\<close>
  "dosGetClientIP request =
     (let xForwardedFor = headers request ''x-forwarded-for'';
          xRealIP = headers request ''x-real-ip'';
          cfConnectingIP = headers request ''cf-connecting-ip''
      in if truthyStr cfConnectingIP then orElseStr cfConnectingIP []
         else if truthyStr xRealIP then orElseStr xRealIP []
         else if truthyStr xForwardedFor
           then trim (firstField (CHR '','') (orElseStr xForwardedFor []))
         else orElseStr (headers request ''host'') ''unknown'')"

record SizeCheckResult =
  allowed :: bool
  sizeOf :: "int option"  \<comment> \<open>\<open>size\<close>; \<open>None\<close> is \<open>NaN\<close>\<close>

definition checkRequestSize :: "DoSProtectionConfig \<Rightarrow> NextRequest \<Rightarrow> bool \<Rightarrow> SizeCheckResult" where
  \<comment> \<open>the last argument says that an exception is raised inside the \<open>try\<close> block\<close>
  "checkRequestSize config request raised =
     (if raised then \<lparr>allowed = True, sizeOf = Some 0\<rparr>
      else
        let contentLength = headers request ''content-length''
        in if truthyStr contentLength then
             (case parseInt10 (orElseStr contentLength []) of
                None \<Rightarrow> \<lparr>allowed = False, sizeOf = None\<rparr>
              | Some n \<Rightarrow> \<lparr>allowed = (n \<le> maxRequestSize config), sizeOf = Some n\<rparr>)
           else \<lparr>allowed = True, sizeOf = Some 0\<rparr>)"

definition checkConcurrentRequests :: "DoSProtectionConfig \<Rightarrow> DoSState \<Rightarrow> string \<Rightarrow> bool" where
  "checkConcurrentRequests config st addr =
     (int (length (filter (\<lambda>req. ip req = addr) (map snd (activeRequests st))))
        < maxConcurrentRequests config)"

record RateCheck =
  allowedR :: bool  \<comment> \<open>\<open>allowed\<close>\<close>
  retryAfter :: int
  remainingR :: int  \<comment> \<open>\<open>remaining\<close>\<close>

definition selectRule :: "string \<Rightarrow> EndpointRule" where
  \<comment> \<open>the rule chosen from the path in \<open>DoSProtectionService.checkRateLimit\<close>\<close>
  "selectRule p =
     (if includesStr p ''/auth/'' then auth
      else if includesStr p ''/upload'' then upload
      else if includesStr p ''/analyze'' \<or> includesStr p ''/identify'' then ai
      else general)"

definition dosCheckRateLimit ::
  "PipelineOutcome option \<Rightarrow> Clock \<Rightarrow> FallbackStore \<Rightarrow> NextRequest \<Rightarrow> string
     \<Rightarrow> RateCheck \<times> FallbackStore" where
  \<comment> \<open>\<open>DoSProtectionService.checkRateLimit\<close>\<close>
  "dosCheckRateLimit redis clk fb request addr =
     (let rule = REDIS_RATE_LIMIT_RULES (selectRule (pathname request));
          (result, fb') = checkRateLimit redis (tLimiter clk) (tFallback clk) fb addr rule ''dos''
      in (\<lparr>allowedR = success result,
           retryAfter = resetTimeR result - tRetryAfter clk,
           remainingR = remainingRequests result\<rparr>, fb'))"

record SuspiciousCheck =
  suspicious :: bool
  reason :: "string option"

definition suspiciousAgents :: "string list" where
  "suspiciousAgents =
     [''python'', ''curl'', ''wget'', ''libwww'', ''lwp'', ''scanner'', ''bot'', ''crawler'']"

definition detectSuspiciousPatterns ::
  "DoSState \<Rightarrow> NextRequest \<Rightarrow> string \<Rightarrow> string \<Rightarrow> SuspiciousCheck \<times> DoSState" where
  "detectSuspiciousPatterns st request addr agent =
     (let lowerAgent = toLowerCase agent
      in if list_ex (\<lambda>a. includesStr lowerAgent a) suspiciousAgents then
           (\<lparr>suspicious = True, reason = Some ''Suspicious user agent''\<rparr>, st)
         else
           let currentCount = orElse (requestCounts st addr) 0;
               st1 = st\<lparr>requestCounts := (requestCounts st)(addr \<mapsto> currentCount + 1),
                        timers := timers st @ [(60000, DecrementCount addr)]\<rparr>;
               contentType = headers request ''content-type''
           in if currentCount > 20 then
                (\<lparr>suspicious = True, reason = Some ''High request frequency''\<rparr>, st1)
              else if truthyStr contentType \<and> includesStr (orElseStr contentType []) ''../../'' then
                (\<lparr>suspicious = True, reason = Some ''Malformed content-type header''\<rparr>, st1)
              else if includesStr (pathname request) ''../''
                      \<or> includesStr (pathname request) [CHR ''.'', CHR ''.'', CHR 0x5C] then
                (\<lparr>suspicious = True, reason = Some ''Path traversal attempt''\<rparr>, st1)
              else (\<lparr>suspicious = False, reason = None\<rparr>, st1))"

definition markIPSuspicious :: "DoSState \<Rightarrow> string \<Rightarrow> DoSState" where
  "markIPSuspicious st addr =
     st\<lparr>suspiciousIPs := insert addr (suspiciousIPs st),
        timers := timers st @ [(30 * 60 * 1000, UnmarkSuspicious addr)]\<rparr>"

definition plainResponse :: "string \<Rightarrow> int \<Rightarrow> (string \<times> HeaderValue) list \<Rightarrow> NextResponse" where
  \<comment> \<open>\<open>new NextResponse(text, {status, headers})\<close>\<close>
  "plainResponse text code hs = \<lparr>status = code, respHeaders = hs, body = TextBody text\<rparr>"

definition protectTry ::
  "DoSProtectionConfig \<Rightarrow> DoSState \<Rightarrow> NextRequest \<Rightarrow> Clock \<Rightarrow> PipelineOutcome option
     \<Rightarrow> Step option \<Rightarrow> string \<Rightarrow> string \<Rightarrow> string
     \<Rightarrow> DoSState + (NextResponse option \<times> DoSState)" where
  \<comment> \<open>the \<open>try\<close> block of \<open>protect\<close>; \<open>Inl st\<close> is an exception raised in state \<open>st\<close>\<close>
  "protectTry config st request clk redis fault addr agent requestId =
     (if fault = Some BlockList then Inl st
      else if addr \<in> suspiciousIPs st then
        Inr (Some (plainResponse ''Request blocked'' 429 []), st)
      else if fault = Some SizeCheck then Inl st
      else
        let sizeCheck = checkRequestSize config request (fault = Some SizeRead)
        in if \<not> allowed sizeCheck then
             Inr (Some (plainResponse ''Request too large'' 413 []), st)
           else if fault = Some Concurrency then Inl st
           else if \<not> checkConcurrentRequests config st addr then
             Inr (Some (plainResponse ''Too many concurrent requests'' 429 []), st)
           else if fault = Some RateLimit then Inl st
           else
             let (rateLimitCheck, fb') = dosCheckRateLimit redis clk (fallbackStore st) request addr;
                 st1 = st\<lparr>fallbackStore := fb'\<rparr>
             in if \<not> allowedR rateLimitCheck then
                  Inr (Some (plainResponse ''Rate limit exceeded'' 429
                         [(''Retry-After'', Text (numToString (ceilDiv1000 (retryAfter rateLimitCheck)))),
                          (''X-RateLimit-Remaining'', Text (numToString (remainingR rateLimitCheck)))]),
                       st1)
                else if fault = Some Anomaly then Inl st1
                else
                  let (suspiciousCheck, st2) =
                        (if suspiciousPatternDetection config
                         then detectSuspiciousPatterns st1 request addr agent
                         else (\<lparr>suspicious = False, reason = None\<rparr>, st1))
                  in if suspicious suspiciousCheck then
                       Inr (Some (plainResponse ''Request blocked'' 429 []), markIPSuspicious st2 addr)
                     else if fault = Some Track then Inl st2
                     else
                       Inr (None,
                            st2\<lparr>activeRequests :=
                                  mapSet requestId
                                    \<lparr>startTime = tStart clk, sizeBytes = sizeOf sizeCheck, ip = addr,
                                     userAgent = agent, path = pathname request\<rparr>
                                    (activeRequests st2),
                                timers := timers st2 @ [(requestTimeout config, DeleteActive requestId)]\<rparr>))"

definition protect ::
  "DoSProtectionConfig \<Rightarrow> DoSState \<Rightarrow> NextRequest \<Rightarrow> Clock \<Rightarrow> string \<Rightarrow> PipelineOutcome option
     \<Rightarrow> Step option \<Rightarrow> NextResponse option \<times> DoSState" where
  \<comment> \<open>\<open>rnd\<close> is \<open>Math.random()\<close> as text; the result \<open>None\<close> is \<open>null\<close>: the request proceeds\<close>
  "protect config st request clk rnd redis fault =
     (if \<not> enabled config then (None, st)
      else
        let addr = dosGetClientIP request;
            agent = orElseStr (headers request ''user-agent'') ''unknown'';
            requestId = addr @ ''-'' @ numToString (tRequestId clk) @ ''-'' @ rnd
        in case protectTry config st request clk redis fault addr agent requestId of
             Inl st' \<Rightarrow> (None, st')
           | Inr out \<Rightarrow> out)"


section \<open>Sequences of calls\<close>

text \<open>
  A caller that invokes one entry point several times on the same arguments, at the given
  clock readings, threading the store; the results are returned in call order.
\<close>

fun isRateLimitedCalls ::
  "int list \<Rightarrow> RateLimitStore \<Rightarrow> string \<Rightarrow> RateLimitRule \<Rightarrow> LimitedResult list \<times> RateLimitStore" where
  "isRateLimitedCalls [] store key rule = ([], store)"
| "isRateLimitedCalls (t # ts) store key rule =
     (let (r, s) = isRateLimited t store key rule;
          (rs, s') = isRateLimitedCalls ts s key rule
      in (r # rs, s'))"

fun rateLimitMiddlewareCalls ::
  "(int \<times> int) list \<Rightarrow> RateLimitStore \<Rightarrow> RuleName \<Rightarrow> string \<Rightarrow> LimitType
     \<Rightarrow> (error + MiddlewareResult) list \<times> RateLimitStore" where
  "rateLimitMiddlewareCalls [] store ruleName identifier type = ([], store)"
| "rateLimitMiddlewareCalls ((t, tR) # ts) store ruleName identifier type =
     (let (r, s) = rateLimitMiddleware t tR store ruleName identifier type;
          (rs, s') = rateLimitMiddlewareCalls ts s ruleName identifier type
      in (r # rs, s'))"

fun recordFailedLoginCalls ::
  "int list \<Rightarrow> AccountLockoutStore \<Rightarrow> string \<Rightarrow> FailedLoginResult list \<times> AccountLockoutStore" where
  "recordFailedLoginCalls [] store email = ([], store)"
| "recordFailedLoginCalls (t # ts) store email =
     (let (r, s) = recordFailedLogin t store email;
          (rs, s') = recordFailedLoginCalls ts s email
      in (r # rs, s'))"

fun checkRateLimitMemoryCalls ::
  "int list \<Rightarrow> FallbackStore \<Rightarrow> string \<Rightarrow> RateLimitRule \<Rightarrow> string
     \<Rightarrow> RateLimitResult list \<times> FallbackStore" where
  "checkRateLimitMemoryCalls [] store identifier rule prefix = ([], store)"
| "checkRateLimitMemoryCalls (t # ts) store identifier rule prefix =
     (let (r, s) = checkRateLimitMemory t store identifier rule prefix;
          (rs, s') = checkRateLimitMemoryCalls ts s identifier rule prefix
      in (r # rs, s'))"

fun checkRateLimitCalls ::
  "(PipelineOutcome option \<times> int \<times> int) list \<Rightarrow> FallbackStore \<Rightarrow> string \<Rightarrow> RateLimitRule \<Rightarrow> string
     \<Rightarrow> RateLimitResult list \<times> FallbackStore" where
  "checkRateLimitCalls [] store identifier rule prefix = ([], store)"
| "checkRateLimitCalls ((redis, t, tM) # ts) store identifier rule prefix =
     (let (r, s) = checkRateLimit redis t tM store identifier rule prefix;
          (rs, s') = checkRateLimitCalls ts s identifier rule prefix
      in (r # rs, s'))"


section \<open>Auxiliary facts\<close>

lemma truthy_simps:
  "truthy None = False" "truthy (Some n) = (n \<noteq> 0)"
  "orElse None d = d" "orElse (Some n) d = (if n \<noteq> 0 then n else d)"
  by (simp_all add: truthy_def orElse_def)

lemma truthy_orElse: "truthy v \<Longrightarrow> v = Some (orElse v d) \<and> orElse v d \<noteq> 0"
  by (cases v) (simp_all add: truthy_simps)

subsection \<open>Keys\<close>

lemma colon_split:
  "CHR '':'' \<notin> set a \<Longrightarrow> CHR '':'' \<notin> set b \<Longrightarrow> a @ CHR '':'' # x = b @ CHR '':'' # y
     \<Longrightarrow> a = b \<and> x = y"
proof (induction a arbitrary: b)
  case Nil
  then show ?case by (cases b) auto
next
  case (Cons c a)
  then show ?case by (cases b) auto
qed

lemma ruleNameStr_no_colon: "CHR '':'' \<notin> set (ruleNameStr rn)"
  by (cases rn) simp_all

lemma limitTypeStr_no_colon: "CHR '':'' \<notin> set (limitTypeStr ty)"
  by (cases ty) simp_all

lemma ruleNameStr_inj: "ruleNameStr rn = ruleNameStr rn' \<Longrightarrow> rn = rn'"
  by (cases rn; cases rn') simp_all

lemma limitTypeStr_inj: "limitTypeStr ty = limitTypeStr ty' \<Longrightarrow> ty = ty'"
  by (cases ty; cases ty') simp_all

lemma getRateLimitKey_inj:
  "getRateLimitKey (limitTypeStr ty) ident (ruleNameStr rn)
     = getRateLimitKey (limitTypeStr ty') ident' (ruleNameStr rn')
   \<longleftrightarrow> ty = ty' \<and> rn = rn' \<and> ident = ident'"
proof
  assume "getRateLimitKey (limitTypeStr ty) ident (ruleNameStr rn)
     = getRateLimitKey (limitTypeStr ty') ident' (ruleNameStr rn')"
  then have e1: "limitTypeStr ty @ CHR '':'' # (ruleNameStr rn @ CHR '':'' # ident)
      = limitTypeStr ty' @ CHR '':'' # (ruleNameStr rn' @ CHR '':'' # ident')"
    by (simp add: getRateLimitKey_def)
  from colon_split[OF limitTypeStr_no_colon limitTypeStr_no_colon e1]
  have t: "limitTypeStr ty = limitTypeStr ty'"
    and e2: "ruleNameStr rn @ CHR '':'' # ident = ruleNameStr rn' @ CHR '':'' # ident'"
    by simp_all
  from colon_split[OF ruleNameStr_no_colon ruleNameStr_no_colon e2]
  have "ruleNameStr rn = ruleNameStr rn'" "ident = ident'" by simp_all
  with t show "ty = ty' \<and> rn = rn' \<and> ident = ident'"
    by (simp add: ruleNameStr_inj limitTypeStr_inj)
qed auto

subsection \<open>A call touches the entry of its own key only\<close>

lemma isRateLimited_other: "k' \<noteq> k \<Longrightarrow> snd (isRateLimited t store k rule) k' = store k'"
  by (simp add: isRateLimited_def Let_def split: option.splits)

lemma isRateLimited_local:
  "s1 k = s2 k \<Longrightarrow> fst (isRateLimited t s1 k rule) = fst (isRateLimited t s2 k rule)"
  by (simp add: isRateLimited_def Let_def split: option.splits)

lemma middleware_store:
  "snd (rateLimitMiddleware t tR store rn ident ty)
     = snd (isRateLimited t store (getRateLimitKey (limitTypeStr ty) ident (ruleNameStr rn))
              (RATE_LIMIT_RULES rn))"
  by (simp add: rateLimitMiddleware_def Let_def split_def split: sum.splits)

lemma middleware_local:
  "s1 (getRateLimitKey (limitTypeStr ty) ident (ruleNameStr rn))
     = s2 (getRateLimitKey (limitTypeStr ty) ident (ruleNameStr rn))
   \<Longrightarrow> fst (rateLimitMiddleware t tR s1 rn ident ty) = fst (rateLimitMiddleware t tR s2 rn ident ty)"
  using isRateLimited_local[of s1 "getRateLimitKey (limitTypeStr ty) ident (ruleNameStr rn)" s2 t
      "RATE_LIMIT_RULES rn"]
  by (simp add: rateLimitMiddleware_def Let_def split_def split: sum.splits)

lemma middlewareCalls_other:
  "k' \<noteq> getRateLimitKey (limitTypeStr ty) ident (ruleNameStr rn)
   \<Longrightarrow> snd (rateLimitMiddlewareCalls ts store rn ident ty) k' = store k'"
proof (induction ts arbitrary: store)
  case Nil
  then show ?case by simp
next
  case (Cons c ts)
  obtain t tR where c: "c = (t, tR)" by (cases c)
  show ?case
    using Cons isRateLimited_other[of k' "getRateLimitKey (limitTypeStr ty) ident (ruleNameStr rn)"
        t store "RATE_LIMIT_RULES rn"]
    by (simp add: c split_def Let_def middleware_store)
qed

lemma memory_other:
  "k' \<noteq> prefix @ '':'' @ ident \<Longrightarrow> snd (checkRateLimitMemory t fb ident rule prefix) k' = fb k'"
  by (simp add: checkRateLimitMemory_def Let_def split: option.splits)

lemma memory_local:
  "s1 (prefix @ '':'' @ ident) = s2 (prefix @ '':'' @ ident)
   \<Longrightarrow> fst (checkRateLimitMemory t s1 ident rule prefix)
       = fst (checkRateLimitMemory t s2 ident rule prefix)"
  by (simp add: checkRateLimitMemory_def Let_def split: option.splits)

lemma checkRateLimit_other:
  "k' \<noteq> prefix @ '':'' @ ident \<Longrightarrow> snd (checkRateLimit redis t tM fb ident rule prefix) k' = fb k'"
  using memory_other[of k' prefix ident tM fb rule]
  by (simp add: checkRateLimit_def split: option.splits sum.splits)

lemma checkRateLimit_local:
  "s1 (prefix @ '':'' @ ident) = s2 (prefix @ '':'' @ ident)
   \<Longrightarrow> fst (checkRateLimit redis t tM s1 ident rule prefix)
       = fst (checkRateLimit redis t tM s2 ident rule prefix)"
  using memory_local[of s1 prefix ident s2 tM rule]
  by (simp add: checkRateLimit_def split: option.splits sum.splits)

lemma checkRateLimitCalls_other:
  "k' \<noteq> prefix @ '':'' @ ident \<Longrightarrow> snd (checkRateLimitCalls cs fb ident rule prefix) k' = fb k'"
proof (induction cs arbitrary: fb)
  case Nil
  then show ?case by simp
next
  case (Cons c cs)
  obtain redis t tM where c: "c = (redis, t, tM)" by (cases c)
  show ?case
    using Cons checkRateLimit_other[of k' prefix ident redis t tM fb rule]
    by (simp add: c split_def Let_def)
qed

subsection \<open>The reset time of a limited call\<close>

lemma limited_reset:
  assumes lim: "limited (fst (isRateLimited now store key rule))"
      and d: "blockDurationMs rule = Some d" "0 < d" and now: "0 \<le> now"
  shows "\<exists>r. resetTime (fst (isRateLimited now store key rule)) = Some r \<and> r \<noteq> 0"
proof (cases "store key")
  case None
  with lim show ?thesis by (simp add: isRateLimited_def)
next
  case (Some entry)
  show ?thesis
  proof (cases "truthy (blockedUntil entry) \<and> now < orElse (blockedUntil entry) 0")
    case True
    then have "blockedUntil entry = Some (orElse (blockedUntil entry) 0)
        \<and> orElse (blockedUntil entry) 0 \<noteq> 0"
      using truthy_orElse by blast
    moreover have "resetTime (fst (isRateLimited now store key rule)) = blockedUntil entry"
      using Some True by (simp add: isRateLimited_def)
    ultimately show ?thesis by metis
  next
    case False
    then have c: "(truthy (blockedUntil entry) \<and> now < orElse (blockedUntil entry) 0) = False"
      by simp
    have "fst (isRateLimited now store key rule) =
        (if now - windowStart entry > windowMs rule
         then \<lparr>limited = False, resetTime = None, remaining = Some (maxRequests rule - 1)\<rparr>
         else if count entry + 1 > maxRequests rule
         then \<lparr>limited = True, resetTime = Some (now + d), remaining = None\<rparr>
         else \<lparr>limited = False, resetTime = None,
                remaining = Some (maxRequests rule - (count entry + 1))\<rparr>)"
      using Some d now by (simp add: isRateLimited_def Let_def c truthy_simps)
    then show ?thesis
      using lim d now by (simp split: if_splits)
  qed
qed

lemma rules_block: "\<exists>d. blockDurationMs (RATE_LIMIT_RULES rn) = Some d \<and> 0 < d"
  by (cases rn) simp_all

lemma middleware_limited:
  assumes "limited (fst (isRateLimited now store
              (getRateLimitKey (limitTypeStr ty) ident (ruleNameStr rn)) (RATE_LIMIT_RULES rn)))"
      and "resetTime (fst (isRateLimited now store
              (getRateLimitKey (limitTypeStr ty) ident (ruleNameStr rn)) (RATE_LIMIT_RULES rn))) = Some r"
      and "r \<noteq> 0"
  shows "fst (rateLimitMiddleware now nowR store rn ident ty) =
       (if r < - maxTimeValue \<or> maxTimeValue < r then Inl RangeError
        else Inr \<lparr>limitedM = True, response = Some \<lparr>status = 429,
            respHeaders = [(''Retry-After'', Text (numToString (ceilDiv1000 (r - nowR)))),
                           (''X-RateLimit-Reset'', IsoTime r)],
            body = JsonBody [(''error'', limitMessage ty)]\<rparr>\<rparr>)"
  using assms
  by (simp add: rateLimitMiddleware_def createRateLimitResponse_def truthy_simps Let_def split_def)

subsection \<open>The gate under a failing store and under a raised exception\<close>

lemma dos_rejects:
  "dosCheckRateLimit (Some Rejects) clk fb req addr = dosCheckRateLimit None clk fb req addr"
  by (simp add: dosCheckRateLimit_def checkRateLimit_def redisWindow_def)

lemma dos_null:
  "dosCheckRateLimit (Some ResolvesNull) clk fb req addr = dosCheckRateLimit None clk fb req addr"
  by (simp add: dosCheckRateLimit_def checkRateLimit_def redisWindow_def)

lemma try_rejects:
  "protectTry cfg st req clk (Some Rejects) fault addr agent rid
     = protectTry cfg st req clk None fault addr agent rid"
  by (simp only: protectTry_def dos_rejects)

lemma try_null:
  "protectTry cfg st req clk (Some ResolvesNull) fault addr agent rid
     = protectTry cfg st req clk None fault addr agent rid"
  by (simp only: protectTry_def dos_null)

lemma try_fault:
  "s \<noteq> SizeRead \<Longrightarrow>
   (\<exists>st'. protectTry cfg st req clk redis (Some s) addr agent rid = Inl st')
   \<or> protectTry cfg st req clk redis (Some s) addr agent rid
       = protectTry cfg st req clk redis None addr agent rid"
  by (cases s) (simp_all add: protectTry_def Let_def split_def)

lemma protect_fault:
  "s \<noteq> SizeRead \<Longrightarrow>
   fst (protect cfg st req clk rnd redis (Some s)) = None
   \<or> fst (protect cfg st req clk rnd redis (Some s)) = fst (protect cfg st req clk rnd redis None)"
  using try_fault[of s cfg st req clk redis "dosGetClientIP req"
      "orElseStr (headers req ''user-agent'') ''unknown''"
      "dosGetClientIP req @ ''-'' @ numToString (tRequestId clk) @ ''-'' @ rnd"]
  by (auto simp add: protect_def Let_def)

lemma fault_size_check:
  "enabled cfg \<Longrightarrow> dosGetClientIP request \<notin> suspiciousIPs st
   \<Longrightarrow> protect cfg st request clk rnd out (Some SizeCheck) = (None, st)"
  by (simp add: protect_def protectTry_def Let_def)

lemma fault_concurrency:
  "enabled cfg \<Longrightarrow> dosGetClientIP request \<notin> suspiciousIPs st
   \<Longrightarrow> allowed (checkRequestSize cfg request False)
   \<Longrightarrow> protect cfg st request clk rnd out (Some Concurrency) = (None, st)"
  by (simp add: protect_def protectTry_def Let_def)

lemma fault_rate_limit:
  "enabled cfg \<Longrightarrow> dosGetClientIP request \<notin> suspiciousIPs st
   \<Longrightarrow> allowed (checkRequestSize cfg request False)
   \<Longrightarrow> checkConcurrentRequests cfg st (dosGetClientIP request)
   \<Longrightarrow> protect cfg st request clk rnd out (Some RateLimit) = (None, st)"
  by (simp add: protect_def protectTry_def Let_def)

lemma fault_anomaly:
  "enabled cfg \<Longrightarrow> dosGetClientIP request \<notin> suspiciousIPs st
   \<Longrightarrow> allowed (checkRequestSize cfg request False)
   \<Longrightarrow> checkConcurrentRequests cfg st (dosGetClientIP request)
   \<Longrightarrow> allowedR (fst (dosCheckRateLimit out clk (fallbackStore st) request (dosGetClientIP request)))
   \<Longrightarrow> protect cfg st request clk rnd out (Some Anomaly)
       = (None, st\<lparr>fallbackStore :=
                      snd (dosCheckRateLimit out clk (fallbackStore st) request
                             (dosGetClientIP request))\<rparr>)"
  by (simp add: protect_def protectTry_def Let_def split_def)

lemma size_nan:
  assumes "headers req ''content-length'' = Some v" "v \<noteq> []" "parseInt10 v = None"
  shows "checkRequestSize cfg req False = \<lparr>allowed = False, sizeOf = None\<rparr>"
  using assms by (simp add: checkRequestSize_def truthyStr_def orElseStr_def Let_def)

lemma protect_nan:
  assumes "headers req ''content-length'' = Some v" "v \<noteq> []" "parseInt10 v = None"
      and "enabled cfg" "dosGetClientIP req \<notin> suspiciousIPs st"
      and "fault \<notin> {Some BlockList, Some SizeRead, Some SizeCheck}"
  shows "protect cfg st req clk rnd redis fault
           = (Some (plainResponse ''Request too large'' 413 []), st)"
  using assms(4-6) size_nan[OF assms(1-3), of cfg]
  by (simp add: protect_def protectTry_def Let_def)

lemma size_absent:
  assumes "headers req ''content-length'' = None \<or> headers req ''content-length'' = Some []"
  shows "checkRequestSize cfg req False = \<lparr>allowed = True, sizeOf = Some 0\<rparr>"
  using assms by (auto simp add: checkRequestSize_def truthyStr_def orElseStr_def Let_def)


section \<open>Window correctness\<close>

text \<open>
  Claim C2. For a fresh key and a rule with \<open>windowMs = 60000\<close> and \<open>maxRequests = 3\<close>, four
  calls of which the last three fall within the window opened by the first (no later than
  \<open>t1 + 60000\<close>) return: allowed, allowed, allowed with \<open>remaining\<close> 2, 1, 0, then not
  allowed. The fourth request is counted although it is refused: the stored count is 4.
  This holds for \<open>isRateLimited\<close> of lib/rateLimit.ts and for \<open>checkRateLimitMemory\<close> of
  lib/redisRateLimit.ts (whose result says \<open>success\<close> for allowed).
\<close>

theorem C2_window_correctness:
  assumes "windowMs rule = 60000" and "maxRequests rule = 3"
      and "store key = None" and "fb (prefix @ '':'' @ ident) = None"
      and "t2 - t1 \<le> 60000" and "t3 - t1 \<le> 60000" and "t4 - t1 \<le> 60000"
  shows "map limited (fst (isRateLimitedCalls [t1, t2, t3, t4] store key rule))
           = [False, False, False, True]
       \<and> map remaining (fst (isRateLimitedCalls [t1, t2, t3] store key rule))
           = [Some 2, Some 1, Some 0]
       \<and> map_option count (snd (isRateLimitedCalls [t1, t2, t3, t4] store key rule) key) = Some 4
       \<and> map success (fst (checkRateLimitMemoryCalls [t1, t2, t3, t4] fb ident rule prefix))
           = [True, True, True, False]
       \<and> map remainingRequests (fst (checkRateLimitMemoryCalls [t1, t2, t3] fb ident rule prefix))
           = [2, 1, 0]
       \<and> map totalCount (fst (checkRateLimitMemoryCalls [t1, t2, t3, t4] fb ident rule prefix))
           = [1, 2, 3, 4]
       \<and> map_option fbCount
           (snd (checkRateLimitMemoryCalls [t1, t2, t3, t4] fb ident rule prefix)
              (prefix @ '':'' @ ident)) = Some 4"
proof -
  have a: "map limited (fst (isRateLimitedCalls [t1, t2, t3, t4] store key rule))
           = [False, False, False, True]
       \<and> map remaining (fst (isRateLimitedCalls [t1, t2, t3] store key rule))
           = [Some 2, Some 1, Some 0]
       \<and> map_option count (snd (isRateLimitedCalls [t1, t2, t3, t4] store key rule) key) = Some 4"
    using assms by (simp add: isRateLimited_def truthy_simps Let_def)
  have b: "map success (fst (checkRateLimitMemoryCalls [t1, t2, t3, t4] fb ident rule prefix))
           = [True, True, True, False]
       \<and> map remainingRequests (fst (checkRateLimitMemoryCalls [t1, t2, t3] fb ident rule prefix))
           = [2, 1, 0]
       \<and> map totalCount (fst (checkRateLimitMemoryCalls [t1, t2, t3, t4] fb ident rule prefix))
           = [1, 2, 3, 4]
       \<and> map_option fbCount
           (snd (checkRateLimitMemoryCalls [t1, t2, t3, t4] fb ident rule prefix)
              (prefix @ '':'' @ ident)) = Some 4"
    using assms by (simp add: checkRateLimitMemory_def Let_def)
  from a b show ?thesis by blast
qed

text \<open>
  The rule of the test suite (with a block duration of five minutes), four calls one second
  apart on an empty store.
\<close>

theorem C2_window_correctness_witness:
  "map limited (fst (isRateLimitedCalls [1000, 2000, 3000, 4000] Map.empty ''test-key-3''
       \<lparr>windowMs = 60000, maxRequests = 3, blockDurationMs = Some 300000\<rparr>))
     = [False, False, False, True]
   \<and> map remaining (fst (isRateLimitedCalls [1000, 2000, 3000] Map.empty ''test-key-3''
       \<lparr>windowMs = 60000, maxRequests = 3, blockDurationMs = Some 300000\<rparr>))
     = [Some 2, Some 1, Some 0]
   \<and> map success (fst (checkRateLimitMemoryCalls [1000, 2000, 3000, 4000] Map.empty ''1.2.3.4''
       \<lparr>windowMs = 60000, maxRequests = 3, blockDurationMs = Some 300000\<rparr> ''rl''))
     = [True, True, True, False]"
  using C2_window_correctness[where rule = "\<lparr>windowMs = 60000, maxRequests = 3, blockDurationMs = Some 300000\<rparr>"
      and store = Map.empty and key = "''test-key-3''" and fb = Map.empty and prefix = "''rl''"
      and ident = "''1.2.3.4''" and ?t1.0 = 1000 and ?t2.0 = 2000 and ?t3.0 = 3000 and ?t4.0 = 4000]
  by simp

section \<open>Account lockout\<close>

text \<open>
  Claim C4. For an identity with no recorded failures (no entry, or an entry whose
  \<open>failedAttempts\<close> is 0), five calls of \<open>recordFailedLogin\<close>, each within the failure window
  of the one before (so that the counter is not reset in between), return \<open>locked = false\<close>
  with \<open>attemptsRemaining\<close> 4, 3, 2, 1 and then \<open>locked = true\<close> with \<open>lockedUntil\<close> set, to
  the time of the fifth call plus the lockout duration.
\<close>

theorem C4_lockout_threshold:
  assumes "case store email of None \<Rightarrow> True | Some e \<Rightarrow> failedAttempts e = 0"
      and "t2 - t1 \<le> failureWindowMs" and "t3 - t2 \<le> failureWindowMs"
      and "t4 - t3 \<le> failureWindowMs" and "t5 - t4 \<le> failureWindowMs"
  shows "map locked (fst (recordFailedLoginCalls [t1, t2, t3, t4, t5] store email))
           = [False, False, False, False, True]
       \<and> map attemptsRemaining (fst (recordFailedLoginCalls [t1, t2, t3, t4, t5] store email))
           = [Some 4, Some 3, Some 2, Some 1, None]
       \<and> map lockedUntilR (fst (recordFailedLoginCalls [t1, t2, t3, t4, t5] store email))
           = [None, None, None, None, Some (t5 + lockoutDurationMs)]"
  using assms
  by (auto simp add: recordFailedLogin_def Let_def maxFailedAttempts_def split: option.splits)

theorem C4_lockout_threshold_witness:
  "map locked (fst (recordFailedLoginCalls [1000, 2000, 3000, 4000, 5000] Map.empty ''test@example.com''))
     = [False, False, False, False, True]
   \<and> map attemptsRemaining
       (fst (recordFailedLoginCalls [1000, 2000, 3000, 4000, 5000] Map.empty ''test@example.com''))
     = [Some 4, Some 3, Some 2, Some 1, None]
   \<and> map lockedUntilR
       (fst (recordFailedLoginCalls [1000, 2000, 3000, 4000, 5000] Map.empty ''test@example.com''))
     = [None, None, None, None, Some 1805000]"
  using C4_lockout_threshold[where store = Map.empty and email = "''test@example.com''"
      and ?t1.0 = 1000 and ?t2.0 = 2000 and ?t3.0 = 3000 and ?t4.0 = 4000 and ?t5.0 = 5000]
  by (simp add: failureWindowMs_def lockoutDurationMs_def)

text \<open>
  Claim C5. For an identity whose entry holds a lock (\<open>lockedUntil\<close> set, a non-zero time
  stamp) that has expired (\<open>now \<ge> lockedUntil\<close>), \<open>isAccountLocked\<close> returns
  \<open>locked = false\<close> and stores the entry with \<open>failedAttempts = 0\<close> and \<open>lockedUntil\<close>
  cleared; the next \<open>recordFailedLogin\<close>, at any time, counts from 1 and returns
  \<open>attemptsRemaining = maxFailedAttempts - 1\<close>.
\<close>

theorem C5_lockout_expiry:
  assumes "store email = Some entry" and "lockedUntil entry = Some l" and "l \<noteq> 0" and "now \<ge> l"
  shows "isLocked (fst (isAccountLocked now store email)) = False
       \<and> map_option failedAttempts (snd (isAccountLocked now store email) email) = Some 0
       \<and> map_option lockedUntil (snd (isAccountLocked now store email) email) = Some None
       \<and> fst (recordFailedLogin t (snd (isAccountLocked now store email)) email)
           = \<lparr>locked = False, lockedUntilR = None,
              attemptsRemaining = Some (maxFailedAttempts - 1)\<rparr>"
  using assms
  by (simp add: isAccountLocked_def recordFailedLogin_def truthy_simps Let_def maxFailedAttempts_def)

text \<open>
  Five failures at time 1000 lock the account until 1801000; the lock is read at that very
  time and a failure is recorded one millisecond later.
\<close>

theorem C5_lockout_expiry_witness:
  "snd (recordFailedLoginCalls [1000, 1000, 1000, 1000, 1000] Map.empty ''test@example.com'')
       ''test@example.com''
     = Some \<lparr>failedAttempts = 5, lastFailure = 1000, lockedUntil = Some 1801000\<rparr>
   \<and> isLocked (fst (isAccountLocked 1801000
        (snd (recordFailedLoginCalls [1000, 1000, 1000, 1000, 1000] Map.empty ''test@example.com''))
        ''test@example.com'')) = False
   \<and> fst (recordFailedLogin 1801001
        (snd (isAccountLocked 1801000
           (snd (recordFailedLoginCalls [1000, 1000, 1000, 1000, 1000] Map.empty ''test@example.com''))
           ''test@example.com''))
        ''test@example.com'')
     = \<lparr>locked = False, lockedUntilR = None, attemptsRemaining = Some 4\<rparr>"
proof -
  have e: "snd (recordFailedLoginCalls [1000, 1000, 1000, 1000, 1000] Map.empty ''test@example.com'')
       ''test@example.com''
     = Some \<lparr>failedAttempts = 5, lastFailure = 1000, lockedUntil = Some 1801000\<rparr>"
    by (simp add: recordFailedLogin_def Let_def maxFailedAttempts_def failureWindowMs_def
        lockoutDurationMs_def)
  show ?thesis
    using e C5_lockout_expiry[where email = "''test@example.com''"
        and store = "snd (recordFailedLoginCalls [1000, 1000, 1000, 1000, 1000] Map.empty
                            ''test@example.com'')"
        and entry = "\<lparr>failedAttempts = 5, lastFailure = 1000, lockedUntil = Some 1801000\<rparr>"
        and l = 1801000 and now = 1801000 and t = 1801001]
    by (simp add: maxFailedAttempts_def)
qed

section \<open>CSRF allow-list\<close>

text \<open>
  The decision of \<open>csrfProtection\<close> for every request, allow-list and URL parser. A method
  whose upper-case form is not POST, PUT, DELETE or PATCH is not checked. Otherwise an
  origin that is present (not empty) decides alone, by membership in the allow-list;
  without one, a present referer decides: it must parse, and its \<open>protocol//host\<close> must be
  in the allow-list; with neither header the request is rejected. A rejection is the 403
  response.
\<close>

lemma csrf_skipped:
  "toUpperCase (httpMethod rq) \<notin> set [''POST'', ''PUT'', ''DELETE'', ''PATCH'']
   \<Longrightarrow> csrfProtection env parse rq = None"
  by (simp add: csrfProtection_def Let_def)

lemma csrf_checked:
  "toUpperCase (httpMethod rq) \<in> set [''POST'', ''PUT'', ''DELETE'', ''PATCH'']
   \<Longrightarrow> (csrfProtection env parse rq = None) = validateCSRF env parse rq"
  by (auto simp add: csrfProtection_def Let_def)

lemma csrf_status: "csrfProtection env parse rq = Some resp \<Longrightarrow> status resp = 403"
  by (auto simp add: csrfProtection_def Let_def split: if_splits)

lemma validate_origin:
  "headers rq ''origin'' = Some og \<Longrightarrow> og \<noteq> []
   \<Longrightarrow> validateCSRF env parse rq = (og \<in> set (getAllowedOrigins env))"
  by (simp add: validateCSRF_def truthyStr_def orElseStr_def Let_def)

lemma validate_referer:
  "\<not> truthyStr (headers rq ''origin'') \<Longrightarrow> headers rq ''referer'' = Some rf \<Longrightarrow> rf \<noteq> []
   \<Longrightarrow> validateCSRF env parse rq
       = (case parse rf of None \<Rightarrow> False
          | Some u \<Rightarrow> protocol u @ ''//'' @ host u \<in> set (getAllowedOrigins env))"
  by (simp add: validateCSRF_def truthyStr_def orElseStr_def Let_def)

lemma validate_neither:
  "\<not> truthyStr (headers rq ''origin'') \<Longrightarrow> \<not> truthyStr (headers rq ''referer'')
   \<Longrightarrow> validateCSRF env parse rq = False"
  by (simp add: validateCSRF_def Let_def)

text \<open>
  Claim C3. With the allow-list \<open>["http://localhost:3000"]\<close> (the value of
  \<open>ALLOWED_ORIGINS\<close>) and a URL parser that reads \<open>http://localhost:3000/page\<close> as protocol
  \<open>http:\<close> and host \<open>localhost:3000\<close> and rejects \<open>not a url\<close>: a POST with that origin is
  allowed (the result is \<open>null\<close>); a POST with origin \<open>https://evil.example\<close> is rejected
  with 403; a POST with no origin and the referer \<open>http://localhost:3000/page\<close> is allowed;
  a POST whose only header is the referer \<open>not a url\<close> is rejected; a POST with neither
  header is rejected; a GET with the bad origin is allowed.

  These six answers come from the rule the claim names, which holds for every request
  \<open>rq\<close>, every allow-list and every parser \<open>parse\<close>: a request whose method is not one of
  POST, PUT, DELETE, PATCH (in any case of letters) is allowed unchecked; a request with
  one of these methods and an origin is allowed exactly if the origin is in the
  allow-list; one with no origin and a referer that parses is allowed exactly if the
  referer's \<open>protocol//host\<close> is in the allow-list; one with no origin and a referer that
  does not parse is rejected; one with neither header is rejected; every rejection has
  status 403.
\<close>

theorem C3_csrf_allow_list:
  assumes "parseUrl ''http://localhost:3000/page''
             = Some \<lparr>protocol = ''http:'', host = ''localhost:3000''\<rparr>"
      and "parseUrl ''not a url'' = None"
  shows "csrfProtection (Some ''http://localhost:3000'') parseUrl
           \<lparr>httpMethod = ''POST'', headers = [''origin'' \<mapsto> ''http://localhost:3000''],
            pathname = p\<rparr> = None
       \<and> map_option status (csrfProtection (Some ''http://localhost:3000'') parseUrl
           \<lparr>httpMethod = ''POST'', headers = [''origin'' \<mapsto> ''https://evil.example''],
            pathname = p\<rparr>) = Some 403
       \<and> csrfProtection (Some ''http://localhost:3000'') parseUrl
           \<lparr>httpMethod = ''POST'', headers = [''referer'' \<mapsto> ''http://localhost:3000/page''],
            pathname = p\<rparr> = None
       \<and> map_option status (csrfProtection (Some ''http://localhost:3000'') parseUrl
           \<lparr>httpMethod = ''POST'', headers = [''referer'' \<mapsto> ''not a url''],
            pathname = p\<rparr>) = Some 403
       \<and> map_option status (csrfProtection (Some ''http://localhost:3000'') parseUrl
           \<lparr>httpMethod = ''POST'', headers = Map.empty, pathname = p\<rparr>) = Some 403
       \<and> csrfProtection (Some ''http://localhost:3000'') parseUrl
           \<lparr>httpMethod = ''GET'', headers = [''origin'' \<mapsto> ''https://evil.example''],
            pathname = p\<rparr> = None
       \<and> getAllowedOrigins (Some ''http://localhost:3000'') = [''http://localhost:3000'']
       \<and> (toUpperCase (httpMethod rq) \<notin> set [''POST'', ''PUT'', ''DELETE'', ''PATCH'']
            \<longrightarrow> csrfProtection env parse rq = None)
       \<and> (toUpperCase (httpMethod rq) \<in> set [''POST'', ''PUT'', ''DELETE'', ''PATCH'']
            \<and> headers rq ''origin'' = Some og \<and> og \<noteq> []
            \<longrightarrow> (csrfProtection env parse rq = None) = (og \<in> set (getAllowedOrigins env)))
       \<and> (toUpperCase (httpMethod rq) \<in> set [''POST'', ''PUT'', ''DELETE'', ''PATCH'']
            \<and> \<not> truthyStr (headers rq ''origin'')
            \<and> headers rq ''referer'' = Some rf \<and> rf \<noteq> [] \<and> parse rf = Some u
            \<longrightarrow> (csrfProtection env parse rq = None)
                 = (protocol u @ ''//'' @ host u \<in> set (getAllowedOrigins env)))
       \<and> (toUpperCase (httpMethod rq) \<in> set [''POST'', ''PUT'', ''DELETE'', ''PATCH'']
            \<and> \<not> truthyStr (headers rq ''origin'')
            \<and> headers rq ''referer'' = Some rf \<and> rf \<noteq> [] \<and> parse rf = None
            \<longrightarrow> map_option status (csrfProtection env parse rq) = Some 403)
       \<and> (toUpperCase (httpMethod rq) \<in> set [''POST'', ''PUT'', ''DELETE'', ''PATCH'']
            \<and> \<not> truthyStr (headers rq ''origin'') \<and> \<not> truthyStr (headers rq ''referer'')
            \<longrightarrow> map_option status (csrfProtection env parse rq) = Some 403)
       \<and> (csrfProtection env parse rq = Some resp \<longrightarrow> status resp = 403)"
proof -
  have six: "csrfProtection (Some ''http://localhost:3000'') parseUrl
           \<lparr>httpMethod = ''POST'', headers = [''origin'' \<mapsto> ''http://localhost:3000''],
            pathname = p\<rparr> = None
       \<and> map_option status (csrfProtection (Some ''http://localhost:3000'') parseUrl
           \<lparr>httpMethod = ''POST'', headers = [''origin'' \<mapsto> ''https://evil.example''],
            pathname = p\<rparr>) = Some 403
       \<and> csrfProtection (Some ''http://localhost:3000'') parseUrl
           \<lparr>httpMethod = ''POST'', headers = [''referer'' \<mapsto> ''http://localhost:3000/page''],
            pathname = p\<rparr> = None
       \<and> map_option status (csrfProtection (Some ''http://localhost:3000'') parseUrl
           \<lparr>httpMethod = ''POST'', headers = [''referer'' \<mapsto> ''not a url''],
            pathname = p\<rparr>) = Some 403
       \<and> map_option status (csrfProtection (Some ''http://localhost:3000'') parseUrl
           \<lparr>httpMethod = ''POST'', headers = Map.empty, pathname = p\<rparr>) = Some 403
       \<and> csrfProtection (Some ''http://localhost:3000'') parseUrl
           \<lparr>httpMethod = ''GET'', headers = [''origin'' \<mapsto> ''https://evil.example''],
            pathname = p\<rparr> = None"
    using assms
    by (simp add: csrfProtection_def validateCSRF_def getAllowedOrigins_def truthyStr_def
        orElseStr_def toUpperCase_def upperChar_def trim_def isWhitespace_def Let_def)
  have allow: "getAllowedOrigins (Some ''http://localhost:3000'') = [''http://localhost:3000'']"
    by (simp add: getAllowedOrigins_def truthyStr_def orElseStr_def trim_def isWhitespace_def)
  have rejected: "map_option status (csrfProtection env parse rq) = Some 403"
    if "csrfProtection env parse rq \<noteq> None"
    using that csrf_status[of env parse rq] by (cases "csrfProtection env parse rq") simp_all
  have g1: "csrfProtection env parse rq = None"
    if "toUpperCase (httpMethod rq) \<notin> set [''POST'', ''PUT'', ''DELETE'', ''PATCH'']"
    using that by (rule csrf_skipped)
  have g2: "(csrfProtection env parse rq = None) = (og \<in> set (getAllowedOrigins env))"
    if "toUpperCase (httpMethod rq) \<in> set [''POST'', ''PUT'', ''DELETE'', ''PATCH'']"
       "headers rq ''origin'' = Some og" "og \<noteq> []"
    using csrf_checked[OF that(1), of env parse] validate_origin[OF that(2,3), of env parse]
    by simp
  have g3: "(csrfProtection env parse rq = None)
        = (protocol u @ ''//'' @ host u \<in> set (getAllowedOrigins env))"
    if "toUpperCase (httpMethod rq) \<in> set [''POST'', ''PUT'', ''DELETE'', ''PATCH'']"
       "\<not> truthyStr (headers rq ''origin'')" "headers rq ''referer'' = Some rf" "rf \<noteq> []"
       "parse rf = Some u"
    using csrf_checked[OF that(1), of env parse] validate_referer[OF that(2,3,4), of env parse]
      that(5)
    by simp
  have g4: "map_option status (csrfProtection env parse rq) = Some 403"
    if "toUpperCase (httpMethod rq) \<in> set [''POST'', ''PUT'', ''DELETE'', ''PATCH'']"
       "\<not> truthyStr (headers rq ''origin'')" "headers rq ''referer'' = Some rf" "rf \<noteq> []"
       "parse rf = None"
  proof (rule rejected)
    show "csrfProtection env parse rq \<noteq> None"
      using csrf_checked[OF that(1), of env parse] validate_referer[OF that(2,3,4), of env parse]
        that(5)
      by simp
  qed
  have g5: "map_option status (csrfProtection env parse rq) = Some 403"
    if "toUpperCase (httpMethod rq) \<in> set [''POST'', ''PUT'', ''DELETE'', ''PATCH'']"
       "\<not> truthyStr (headers rq ''origin'')" "\<not> truthyStr (headers rq ''referer'')"
  proof (rule rejected)
    show "csrfProtection env parse rq \<noteq> None"
      using csrf_checked[OF that(1), of env parse] validate_neither[OF that(2,3), of env parse]
      by simp
  qed
  have g6: "status resp = 403" if "csrfProtection env parse rq = Some resp"
    using that by (rule csrf_status)
  from six allow g1 g2 g3 g4 g5 g6 show ?thesis by blast
qed

text \<open>
  The parser here is a table of two referers, one of the allowed origin and one foreign.
  A DELETE written in lower case with the foreign referer is rejected, the same request
  with the allowed referer passes, and a HEAD with the foreign referer is not checked.
\<close>

theorem C3_csrf_allow_list_witness:
  "csrfProtection (Some ''http://localhost:3000'')
        [''http://localhost:3000/page'' \<mapsto> \<lparr>protocol = ''http:'', host = ''localhost:3000''\<rparr>,
         ''https://evil.example/page'' \<mapsto> \<lparr>protocol = ''https:'', host = ''evil.example''\<rparr>]
        \<lparr>httpMethod = ''POST'', headers = [''referer'' \<mapsto> ''http://localhost:3000/page''],
         pathname = ''/api/plants''\<rparr> = None
   \<and> map_option status (csrfProtection (Some ''http://localhost:3000'')
        [''http://localhost:3000/page'' \<mapsto> \<lparr>protocol = ''http:'', host = ''localhost:3000''\<rparr>,
         ''https://evil.example/page'' \<mapsto> \<lparr>protocol = ''https:'', host = ''evil.example''\<rparr>]
        \<lparr>httpMethod = ''POST'', headers = [''referer'' \<mapsto> ''not a url''],
         pathname = ''/api/plants''\<rparr>) = Some 403
   \<and> csrfProtection (Some ''http://localhost:3000'')
        [''http://localhost:3000/page'' \<mapsto> \<lparr>protocol = ''http:'', host = ''localhost:3000''\<rparr>,
         ''https://evil.example/page'' \<mapsto> \<lparr>protocol = ''https:'', host = ''evil.example''\<rparr>]
        \<lparr>httpMethod = ''delete'', headers = [''referer'' \<mapsto> ''https://evil.example/page''],
         pathname = ''/api/plants/7''\<rparr> \<noteq> None
   \<and> csrfProtection (Some ''http://localhost:3000'')
        [''http://localhost:3000/page'' \<mapsto> \<lparr>protocol = ''http:'', host = ''localhost:3000''\<rparr>,
         ''https://evil.example/page'' \<mapsto> \<lparr>protocol = ''https:'', host = ''evil.example''\<rparr>]
        \<lparr>httpMethod = ''HEAD'', headers = [''referer'' \<mapsto> ''https://evil.example/page''],
         pathname = ''/api/plants/7''\<rparr> = None"
proof -
  let ?parse = "[''http://localhost:3000/page'' \<mapsto> \<lparr>protocol = ''http:'', host = ''localhost:3000''\<rparr>,
         ''https://evil.example/page'' \<mapsto> \<lparr>protocol = ''https:'', host = ''evil.example''\<rparr>]"
  have u1: "?parse ''http://localhost:3000/page''
      = Some \<lparr>protocol = ''http:'', host = ''localhost:3000''\<rparr>"
    by simp
  have u2: "?parse ''not a url'' = None"
    by simp
  have u3: "?parse ''https://evil.example/page''
      = Some \<lparr>protocol = ''https:'', host = ''evil.example''\<rparr>"
    by simp
  have m1: "toUpperCase ''delete'' = ''DELETE''" "toUpperCase ''HEAD'' = ''HEAD''"
    by (simp_all add: toUpperCase_def upperChar_def)
  note c3 = C3_csrf_allow_list[OF u1 u2, where p = "''/api/plants''"
      and env = "Some ''http://localhost:3000''" and parse = ?parse
      and rf = "''https://evil.example/page''"
      and u = "\<lparr>protocol = ''https:'', host = ''evil.example''\<rparr>"]
  have del: "csrfProtection (Some ''http://localhost:3000'') ?parse
        \<lparr>httpMethod = ''delete'', headers = [''referer'' \<mapsto> ''https://evil.example/page''],
         pathname = ''/api/plants/7''\<rparr> \<noteq> None"
    using c3[where rq = "\<lparr>httpMethod = ''delete'',
        headers = [''referer'' \<mapsto> ''https://evil.example/page''], pathname = ''/api/plants/7''\<rparr>"]
      u3 m1
    by (simp add: truthyStr_def)
  have hd: "csrfProtection (Some ''http://localhost:3000'') ?parse
        \<lparr>httpMethod = ''HEAD'', headers = [''referer'' \<mapsto> ''https://evil.example/page''],
         pathname = ''/api/plants/7''\<rparr> = None"
    using c3[where rq = "\<lparr>httpMethod = ''HEAD'',
        headers = [''referer'' \<mapsto> ''https://evil.example/page''], pathname = ''/api/plants/7''\<rparr>"]
      m1
    by simp
  have ok: "csrfProtection (Some ''http://localhost:3000'') ?parse
        \<lparr>httpMethod = ''POST'', headers = [''referer'' \<mapsto> ''http://localhost:3000/page''],
         pathname = ''/api/plants''\<rparr> = None"
    and bad: "map_option status (csrfProtection (Some ''http://localhost:3000'') ?parse
        \<lparr>httpMethod = ''POST'', headers = [''referer'' \<mapsto> ''not a url''],
         pathname = ''/api/plants''\<rparr>) = Some 403"
    using c3[where rq = "\<lparr>httpMethod = ''HEAD'', headers = Map.empty, pathname = []\<rparr>"
        and og = "[]" and resp = "\<lparr>status = 403, respHeaders = [], body = TextBody []\<rparr>"]
    by blast+
  from ok bad del hd show ?thesis by blast
qed

section \<open>The gate outside production\<close>

text \<open>
  Claim C9. When \<open>NODE_ENV\<close> is not \<open>production\<close>, \<open>protect\<close> returns \<open>null\<close> for every
  request, whatever the state, the store and the faults, and leaves the state of the gate
  (active requests, suspicious addresses, counters, limiter entries, timers) as it was.
\<close>

theorem C9_disabled_outside_production:
  "nodeEnv \<noteq> Some ''production''
   \<Longrightarrow> protect (mkConfig nodeEnv) st request clk rnd redis fault = (None, st)"
  by (simp add: protect_def mkConfig_def)

theorem C9_disabled_outside_production_witness:
  "Some ''development'' \<noteq> Some ''production''
   \<and> protect (mkConfig (Some ''development''))
        \<lparr>activeRequests = [], suspiciousIPs = {''6.6.6.6''}, requestCounts = Map.empty,
         fallbackStore = Map.empty, timers = []\<rparr>
        \<lparr>httpMethod = ''POST'',
         headers = [''x-real-ip'' \<mapsto> ''6.6.6.6'', ''content-length'' \<mapsto> ''99999999999'',
                    ''user-agent'' \<mapsto> ''curl/8.0''],
         pathname = ''/api/../etc''\<rparr>
        \<lparr>tRequestId = 1000, tLimiter = 1000, tFallback = 1000, tRetryAfter = 1000, tStart = 1000\<rparr>
        ''0.5'' None None
     = (None, \<lparr>activeRequests = [], suspiciousIPs = {''6.6.6.6''}, requestCounts = Map.empty,
               fallbackStore = Map.empty, timers = []\<rparr>)"
  using C9_disabled_outside_production[where nodeEnv = "Some ''development''"]
  by simp

section \<open>Independence of rate-limit keys\<close>

text \<open>
  Claim C1, as stated, fails for \<open>checkRateLimit\<close> of lib/redisRateLimit.ts: its key is
  \<open>prefix:identifier\<close> and does not contain the rule. With no durable store configured, ten
  calls under the rule \<open>AI_ANALYZE\<close> for \<open>1.2.3.4\<close> in scope \<open>ip\<close> make the first call under
  the rule \<open>LOGIN\<close> for the same identifier and scope the eleventh of one counter, and it is
  refused; on an empty store that call is the first and is allowed.
\<close>

theorem C1_shared_counter_counterexample:
  "fst (checkRateLimit None 2000 2000
          (snd (checkRateLimitCalls (replicate 10 (None, 1000, 1000)) Map.empty ''1.2.3.4''
                  (RATE_LIMIT_RULES AI_ANALYZE) ''ip''))
          ''1.2.3.4'' (RATE_LIMIT_RULES LOGIN) ''ip'')
     = \<lparr>success = False, totalCount = 11, remainingRequests = 0, resetTimeR = 61000\<rparr>
   \<and> fst (checkRateLimit None 2000 2000 Map.empty ''1.2.3.4'' (RATE_LIMIT_RULES LOGIN) ''ip'')
     = \<lparr>success = True, totalCount = 1, remainingRequests = 4, resetTimeR = 902000\<rparr>"
  by (simp add: checkRateLimit_def checkRateLimitMemory_def Let_def eval_nat_numeral)

text \<open>
  Claim C1, amended. Rate-limit state is kept per key string. In \<open>rateLimitMiddleware\<close> the
  key is \<open>type:rule:identifier\<close>; for the two types and the five named rules two keys are
  equal only if type, rule and identifier are equal, and any number of calls for one
  (type, rule, identifier) leaves the result of a call for another one as it would be
  without them. In \<open>checkRateLimit\<close> the key is \<open>prefix:identifier\<close>, without the rule: calls
  whose keys differ do not affect each other's result in the in-memory store, two
  prefixes without a colon give equal keys only for equal prefix and identifier, and two
  calls with the same prefix and identifier share one counter whatever their rules (the
  second, made before the reset time, counts one more than the first).
\<close>

theorem C1_keys_independent:
  "(getRateLimitKey (limitTypeStr ty) ident (ruleNameStr rn)
      = getRateLimitKey (limitTypeStr ty') ident' (ruleNameStr rn')
    \<longleftrightarrow> ty = ty' \<and> rn = rn' \<and> ident = ident')
   \<and> ((ty, rn, ident) \<noteq> (ty', rn', ident') \<longrightarrow>
        fst (rateLimitMiddleware t tR (snd (rateLimitMiddlewareCalls ts store rn ident ty))
               rn' ident' ty')
          = fst (rateLimitMiddleware t tR store rn' ident' ty'))
   \<and> (prefix @ '':'' @ ident \<noteq> prefix' @ '':'' @ ident' \<longrightarrow>
        fst (checkRateLimit redis t tM (snd (checkRateLimitCalls cs fb ident rule prefix))
               ident' rule' prefix')
          = fst (checkRateLimit redis t tM fb ident' rule' prefix'))
   \<and> (CHR '':'' \<notin> set prefix \<and> CHR '':'' \<notin> set prefix'
        \<and> prefix @ '':'' @ ident = prefix' @ '':'' @ ident'
        \<longrightarrow> prefix = prefix' \<and> ident = ident')
   \<and> (tM' \<le> resetTimeR (fst (checkRateLimitMemory tM fb ident rule prefix)) \<longrightarrow>
        totalCount (fst (checkRateLimitMemory tM'
                           (snd (checkRateLimitMemory tM fb ident rule prefix)) ident rule' prefix))
          = totalCount (fst (checkRateLimitMemory tM fb ident rule prefix)) + 1)"
proof -
  have a: "getRateLimitKey (limitTypeStr ty) ident (ruleNameStr rn)
      = getRateLimitKey (limitTypeStr ty') ident' (ruleNameStr rn')
    \<longleftrightarrow> ty = ty' \<and> rn = rn' \<and> ident = ident'"
    by (rule getRateLimitKey_inj)
  have b: "fst (rateLimitMiddleware t tR (snd (rateLimitMiddlewareCalls ts store rn ident ty))
               rn' ident' ty')
          = fst (rateLimitMiddleware t tR store rn' ident' ty')"
    if "(ty, rn, ident) \<noteq> (ty', rn', ident')"
  proof -
    from that a have "getRateLimitKey (limitTypeStr ty') ident' (ruleNameStr rn')
        \<noteq> getRateLimitKey (limitTypeStr ty) ident (ruleNameStr rn)"
      by auto
    then show ?thesis
      by (intro middleware_local middlewareCalls_other)
  qed
  have c: "fst (checkRateLimit redis t tM (snd (checkRateLimitCalls cs fb ident rule prefix))
               ident' rule' prefix')
          = fst (checkRateLimit redis t tM fb ident' rule' prefix')"
    if "prefix @ '':'' @ ident \<noteq> prefix' @ '':'' @ ident'"
  proof -
    from that have "prefix' @ '':'' @ ident' \<noteq> prefix @ '':'' @ ident" by simp
    then show ?thesis
      by (intro checkRateLimit_local checkRateLimitCalls_other)
  qed
  have d: "prefix = prefix' \<and> ident = ident'"
    if "CHR '':'' \<notin> set prefix" "CHR '':'' \<notin> set prefix'"
       "prefix @ '':'' @ ident = prefix' @ '':'' @ ident'"
    using colon_split[of prefix prefix' ident ident'] that by simp
  have e: "totalCount (fst (checkRateLimitMemory tM'
                           (snd (checkRateLimitMemory tM fb ident rule prefix)) ident rule' prefix))
          = totalCount (fst (checkRateLimitMemory tM fb ident rule prefix)) + 1"
    if "tM' \<le> resetTimeR (fst (checkRateLimitMemory tM fb ident rule prefix))"
  proof (cases "fb (prefix @ '':'' @ ident)")
    case None
    with that show ?thesis by (simp add: checkRateLimitMemory_def Let_def)
  next
    case (Some rec)
    with that show ?thesis
      by (cases "tM > fbResetTime rec") (simp_all add: checkRateLimitMemory_def Let_def)
  qed
  from a b c d e show ?thesis by blast
qed

text \<open>
  Six calls for the rule \<open>LOGIN\<close> from one address, then a call for \<open>AI_ANALYZE\<close> from the
  same address: it is answered as on an empty store. The same under \<open>checkRateLimit\<close> with
  the scopes \<open>login\<close> and \<open>analyze\<close>.
\<close>

theorem C1_keys_independent_witness:
  "(Ip, LOGIN, ''1.2.3.4'') \<noteq> (Ip, AI_ANALYZE, ''1.2.3.4'')
   \<and> fst (rateLimitMiddleware 2000 2000
        (snd (rateLimitMiddlewareCalls (replicate 6 (1000, 1000)) Map.empty LOGIN ''1.2.3.4'' Ip))
        AI_ANALYZE ''1.2.3.4'' Ip)
     = Inr \<lparr>limitedM = False, response = None\<rparr>
   \<and> ''login'' @ '':'' @ ''1.2.3.4'' \<noteq> ''analyze'' @ '':'' @ ''1.2.3.4''
   \<and> fst (checkRateLimit None 2000 2000
        (snd (checkRateLimitCalls (replicate 6 (None, 1000, 1000)) Map.empty ''1.2.3.4''
                (REDIS_RATE_LIMIT_RULES auth) ''login''))
        ''1.2.3.4'' (REDIS_RATE_LIMIT_RULES ai) ''analyze'')
     = \<lparr>success = True, totalCount = 1, remainingRequests = 9, resetTimeR = 3602000\<rparr>"
proof -
  have r1: "fst (rateLimitMiddleware 2000 2000 Map.empty AI_ANALYZE ''1.2.3.4'' Ip)
      = Inr \<lparr>limitedM = False, response = None\<rparr>"
    by (simp add: rateLimitMiddleware_def isRateLimited_def)
  have r2: "fst (checkRateLimit None 2000 2000 Map.empty ''1.2.3.4'' (REDIS_RATE_LIMIT_RULES ai)
                   ''analyze'')
      = \<lparr>success = True, totalCount = 1, remainingRequests = 9, resetTimeR = 3602000\<rparr>"
    by (simp add: checkRateLimit_def checkRateLimitMemory_def Let_def)
  have n1: "(Ip, LOGIN, ''1.2.3.4'') \<noteq> (Ip, AI_ANALYZE, ''1.2.3.4'')" by simp
  have n2: "''login'' @ '':'' @ ''1.2.3.4'' \<noteq> ''analyze'' @ '':'' @ ''1.2.3.4''" by simp
  show ?thesis
    using C1_keys_independent[where ty = Ip and rn = LOGIN and ident = "''1.2.3.4''"
        and ty' = Ip and rn' = AI_ANALYZE and ident' = "''1.2.3.4''"
        and t = 2000 and tR = 2000 and tM = 2000 and ts = "replicate 6 (1000, 1000)"
        and store = Map.empty and prefix = "''login''" and prefix' = "''analyze''"
        and redis = None and cs = "replicate 6 (None, 1000, 1000)" and fb = Map.empty
        and rule = "REDIS_RATE_LIMIT_RULES auth" and rule' = "REDIS_RATE_LIMIT_RULES ai"]
      n1 n2 r1 r2
    by metis
qed

section \<open>The rejection response of the middleware\<close>

text \<open>
  Claim C7, as stated, fails: the response of a rate-limited call carries no
  \<open>X-RateLimit-Remaining\<close> header. The fourth registration from one address within the
  hour is limited; its response has exactly the headers \<open>Retry-After\<close> and
  \<open>X-RateLimit-Reset\<close>.
\<close>

theorem C7_no_remaining_header_counterexample:
  "fst (rateLimitMiddleware 1000 1000
          (snd (rateLimitMiddlewareCalls [(1000, 1000), (1000, 1000), (1000, 1000)] Map.empty
                  REGISTRATION ''1.2.3.4'' Ip))
          REGISTRATION ''1.2.3.4'' Ip)
     = Inr \<lparr>limitedM = True,
            response = Some \<lparr>status = 429,
              respHeaders = [(''Retry-After'', Text ''3600''), (''X-RateLimit-Reset'', IsoTime 3601000)],
              body = JsonBody [(''error'',
                ''Too many requests from your IP address. Please try again later.'')]\<rparr>\<rparr>"
  by (simp add: rateLimitMiddleware_def isRateLimited_def getRateLimitKey_def
      createRateLimitResponse_def limitMessage_def truthy_simps Let_def ceilDiv1000_def
      numToString_def natToString.simps maxTimeValue_def)

text \<open>
  Claim C7, amended. For every call of \<open>rateLimitMiddleware\<close> that is rate-limited, at a
  clock that is not negative, the limiter reports a reset time \<open>r\<close> that is not zero, and
  the middleware returns \<open>limited: true\<close> with a response of status 429, the header
  \<open>Retry-After\<close> holding the seconds from the clock to \<open>r\<close> rounded up, the header
  \<open>X-RateLimit-Reset\<close> holding \<open>r\<close> as an ISO time stamp, no other header, and the JSON body
  \<open>{error: message}\<close>. (Outside the range of \<open>Date\<close> the ISO conversion raises instead.)
\<close>

theorem C7_rejection_response:
  assumes "0 \<le> now"
      and "limited (fst (isRateLimited now store
              (getRateLimitKey (limitTypeStr ty) ident (ruleNameStr rn)) (RATE_LIMIT_RULES rn)))"
  shows "\<exists>r. resetTime (fst (isRateLimited now store
              (getRateLimitKey (limitTypeStr ty) ident (ruleNameStr rn)) (RATE_LIMIT_RULES rn))) = Some r
     \<and> r \<noteq> 0
     \<and> fst (rateLimitMiddleware now nowR store rn ident ty) =
       (if r < - maxTimeValue \<or> maxTimeValue < r then Inl RangeError
        else Inr \<lparr>limitedM = True, response = Some \<lparr>status = 429,
            respHeaders = [(''Retry-After'', Text (numToString (ceilDiv1000 (r - nowR)))),
                           (''X-RateLimit-Reset'', IsoTime r)],
            body = JsonBody [(''error'', limitMessage ty)]\<rparr>\<rparr>)"
proof -
  obtain d where d: "blockDurationMs (RATE_LIMIT_RULES rn) = Some d" "0 < d"
    using rules_block by blast
  obtain r where r: "resetTime (fst (isRateLimited now store
      (getRateLimitKey (limitTypeStr ty) ident (ruleNameStr rn)) (RATE_LIMIT_RULES rn))) = Some r"
      "r \<noteq> 0"
    using limited_reset[OF assms(2) d assms(1)] by blast
  show ?thesis using middleware_limited[OF assms(2) r] r by blast
qed

text \<open>
  A user over the limit of \<open>AI_IDENTIFY\<close> (five per minute) and blocked until 305000, asking
  again at 7500 with the response built at 7501.
\<close>

theorem C7_rejection_response_witness:
  "(0::int) \<le> 7500
   \<and> limited (fst (isRateLimited 7500
        [''user:AI_IDENTIFY:user123'' \<mapsto> \<lparr>count = 6, windowStart = 1000, blockedUntil = Some 305000\<rparr>]
        (getRateLimitKey (limitTypeStr User) ''user123'' (ruleNameStr AI_IDENTIFY))
        (RATE_LIMIT_RULES AI_IDENTIFY)))
   \<and> fst (rateLimitMiddleware 7500 7501
        [''user:AI_IDENTIFY:user123'' \<mapsto> \<lparr>count = 6, windowStart = 1000, blockedUntil = Some 305000\<rparr>]
        AI_IDENTIFY ''user123'' User)
     = Inr \<lparr>limitedM = True,
            response = Some \<lparr>status = 429,
              respHeaders = [(''Retry-After'', Text ''298''), (''X-RateLimit-Reset'', IsoTime 305000)],
              body = JsonBody [(''error'',
                ''Too many requests from your account. Please try again later.'')]\<rparr>\<rparr>"
proof -
  have l: "limited (fst (isRateLimited 7500
        [''user:AI_IDENTIFY:user123'' \<mapsto> \<lparr>count = 6, windowStart = 1000, blockedUntil = Some 305000\<rparr>]
        (getRateLimitKey (limitTypeStr User) ''user123'' (ruleNameStr AI_IDENTIFY))
        (RATE_LIMIT_RULES AI_IDENTIFY)))"
    by (simp add: isRateLimited_def getRateLimitKey_def truthy_simps)
  have r: "resetTime (fst (isRateLimited 7500
        [''user:AI_IDENTIFY:user123'' \<mapsto> \<lparr>count = 6, windowStart = 1000, blockedUntil = Some 305000\<rparr>]
        (getRateLimitKey (limitTypeStr User) ''user123'' (ruleNameStr AI_IDENTIFY))
        (RATE_LIMIT_RULES AI_IDENTIFY))) = Some 305000"
    by (simp add: isRateLimited_def getRateLimitKey_def truthy_simps)
  have n: "numToString (ceilDiv1000 (305000 - 7501)) = ''298''"
    by (simp add: ceilDiv1000_def numToString_def natToString.simps)
  show ?thesis
    using l C7_rejection_response[OF _ l, of 7501] r n
    by (simp add: maxTimeValue_def limitMessage_def)
qed

section \<open>Failing open\<close>

text \<open>
  Claim C6, as stated, fails where it promises a decision when the call of the durable
  store times out: the code puts no timeout on \<open>await pipe.exec()\<close>. When the store does
  not answer and the promise never settles, \<open>checkRateLimit\<close> is suspended for good and
  returns no decision, neither the store's nor the fallback's; with no store configured
  the same call returns at once.
\<close>

theorem C6_no_timeout_counterexample:
  "checkRateLimitAwait (Some NeverSettles) 2000 2000 Map.empty ''1.2.3.4''
       (REDIS_RATE_LIMIT_RULES general) ''dos'' = None
   \<and> map_option fst (checkRateLimitAwait None 2000 2000 Map.empty ''1.2.3.4''
       (REDIS_RATE_LIMIT_RULES general) ''dos'')
     = Some \<lparr>success = True, totalCount = 1, remainingRequests = 99, resetTimeR = 902000\<rparr>"
  by (simp add: checkRateLimitAwait_def checkRateLimit_def checkRateLimitMemory_def Let_def)

text \<open>
  Claim C6, amended. When the call of the durable store raises, that is, the promise
  rejects or resolves to \<open>null\<close>, \<open>checkRateLimit\<close> does not throw and returns the decision
  that the in-memory fallback computes for that call, and \<open>protect\<close> then answers as it
  does with no store configured. \<open>checkRateLimit\<close> returns a decision whenever the promise
  settles; the code sets no timeout, and it returns none while the promise does not
  settle. An exception raised in step 2, 3, 4 or 5 of the \<open>try\<close> block of \<open>protect\<close>
  (outside \<open>checkRequestSize\<close>, which handles its own) is
  caught and the request is admitted: if the steps before it pass, \<open>protect\<close> returns
  \<open>null\<close>, with the state as those steps left it (unchanged, or for step 5 with the
  limiter's counter advanced), whatever the step itself and the later ones would have
  answered. In general, with an exception raised at a step, \<open>protect\<close> returns \<open>null\<close> or
  the rejection that an earlier step gives without the exception.
\<close>

theorem C6_fail_open:
  "checkRateLimitAwait (Some (Settles Rejects)) t tM fb ident rule prefix
     = Some (checkRateLimitMemory tM fb ident rule prefix)
   \<and> checkRateLimitAwait (Some (Settles ResolvesNull)) t tM fb ident rule prefix
     = Some (checkRateLimitMemory tM fb ident rule prefix)
   \<and> ((checkRateLimitAwait redis t tM fb ident rule prefix = None) = (redis = Some NeverSettles))
   \<and> protect cfg st request clk rnd (Some Rejects) fault = protect cfg st request clk rnd None fault
   \<and> protect cfg st request clk rnd (Some ResolvesNull) fault
     = protect cfg st request clk rnd None fault
   \<and> (enabled cfg \<and> dosGetClientIP request \<notin> suspiciousIPs st
        \<longrightarrow> protect cfg st request clk rnd out (Some SizeCheck) = (None, st))
   \<and> (enabled cfg \<and> dosGetClientIP request \<notin> suspiciousIPs st
        \<and> allowed (checkRequestSize cfg request False)
        \<longrightarrow> protect cfg st request clk rnd out (Some Concurrency) = (None, st))
   \<and> (enabled cfg \<and> dosGetClientIP request \<notin> suspiciousIPs st
        \<and> allowed (checkRequestSize cfg request False)
        \<and> checkConcurrentRequests cfg st (dosGetClientIP request)
        \<longrightarrow> protect cfg st request clk rnd out (Some RateLimit) = (None, st))
   \<and> (enabled cfg \<and> dosGetClientIP request \<notin> suspiciousIPs st
        \<and> allowed (checkRequestSize cfg request False)
        \<and> checkConcurrentRequests cfg st (dosGetClientIP request)
        \<and> allowedR (fst (dosCheckRateLimit out clk (fallbackStore st) request
                            (dosGetClientIP request)))
        \<longrightarrow> protect cfg st request clk rnd out (Some Anomaly)
             = (None, st\<lparr>fallbackStore :=
                            snd (dosCheckRateLimit out clk (fallbackStore st) request
                                   (dosGetClientIP request))\<rparr>))
   \<and> (s \<noteq> SizeRead \<longrightarrow>
        fst (protect cfg st request clk rnd out (Some s)) = None
        \<or> fst (protect cfg st request clk rnd out (Some s))
            = fst (protect cfg st request clk rnd out None))"
proof -
  have a: "checkRateLimitAwait (Some (Settles Rejects)) t tM fb ident rule prefix
      = Some (checkRateLimitMemory tM fb ident rule prefix)"
    by (simp add: checkRateLimitAwait_def checkRateLimit_def redisWindow_def)
  have b: "checkRateLimitAwait (Some (Settles ResolvesNull)) t tM fb ident rule prefix
      = Some (checkRateLimitMemory tM fb ident rule prefix)"
    by (simp add: checkRateLimitAwait_def checkRateLimit_def redisWindow_def)
  have n: "(checkRateLimitAwait redis t tM fb ident rule prefix = None) = (redis = Some NeverSettles)"
    by (simp add: checkRateLimitAwait_def split: option.splits Awaited.splits)
  have c: "protect cfg st request clk rnd (Some Rejects) fault
      = protect cfg st request clk rnd None fault"
    by (simp only: protect_def try_rejects)
  have d: "protect cfg st request clk rnd (Some ResolvesNull) fault
      = protect cfg st request clk rnd None fault"
    by (simp only: protect_def try_null)
  have g: "fst (protect cfg st request clk rnd out (Some s)) = None
        \<or> fst (protect cfg st request clk rnd out (Some s))
            = fst (protect cfg st request clk rnd out None)"
    if "s \<noteq> SizeRead"
    using that by (rule protect_fault)
  from a b n c d g
    fault_size_check[of cfg request st clk rnd out]
    fault_concurrency[of cfg request st clk rnd out]
    fault_rate_limit[of cfg request st clk rnd out]
    fault_anomaly[of cfg request st out clk rnd]
  show ?thesis by blast
qed

text \<open>
  An address whose fallback counter stands at 100, the limit of the rule \<open>general\<close>, in
  the running window: with the store rejecting, the request is the 101st and the fallback
  refuses it. With an exception raised in the rate-limit step the same request is
  admitted and the state is untouched.
\<close>

theorem C6_fail_open_witness:
  "fst (checkRateLimit (Some Rejects) 2000 2000
          [''dos:1.2.3.4'' \<mapsto> \<lparr>fbCount = 100, fbResetTime = 900000\<rparr>]
          ''1.2.3.4'' (REDIS_RATE_LIMIT_RULES general) ''dos'')
     = \<lparr>success = False, totalCount = 101, remainingRequests = 0, resetTimeR = 900000\<rparr>
   \<and> protect (mkConfig (Some ''production''))
          \<lparr>activeRequests = [], suspiciousIPs = {}, requestCounts = Map.empty,
           fallbackStore = [''dos:1.2.3.4'' \<mapsto> \<lparr>fbCount = 100, fbResetTime = 900000\<rparr>],
           timers = []\<rparr>
          \<lparr>httpMethod = ''GET'',
           headers = [''x-real-ip'' \<mapsto> ''1.2.3.4'', ''user-agent'' \<mapsto> ''Mozilla/5.0''],
           pathname = ''/api/plants''\<rparr>
          \<lparr>tRequestId = 2000, tLimiter = 2000, tFallback = 2000, tRetryAfter = 2000, tStart = 2000\<rparr>
          ''0.5'' (Some Rejects) (Some RateLimit)
     = (None,
        \<lparr>activeRequests = [], suspiciousIPs = {}, requestCounts = Map.empty,
         fallbackStore = [''dos:1.2.3.4'' \<mapsto> \<lparr>fbCount = 100, fbResetTime = 900000\<rparr>],
         timers = []\<rparr>)"
proof -
  let ?st = "\<lparr>activeRequests = [], suspiciousIPs = {}, requestCounts = Map.empty,
           fallbackStore = [''dos:1.2.3.4'' \<mapsto> \<lparr>fbCount = 100, fbResetTime = 900000\<rparr>],
           timers = []\<rparr>"
  let ?rq = "\<lparr>httpMethod = ''GET'',
           headers = [''x-real-ip'' \<mapsto> ''1.2.3.4'', ''user-agent'' \<mapsto> ''Mozilla/5.0''],
           pathname = ''/api/plants''\<rparr>"
  have e: "enabled (mkConfig (Some ''production''))"
    by (simp add: mkConfig_def)
  have i: "dosGetClientIP ?rq \<notin> suspiciousIPs ?st"
    by simp
  have z: "allowed (checkRequestSize (mkConfig (Some ''production'')) ?rq False)"
    by (simp add: checkRequestSize_def truthyStr_def)
  have k: "checkConcurrentRequests (mkConfig (Some ''production'')) ?st (dosGetClientIP ?rq)"
    by (simp add: checkConcurrentRequests_def mkConfig_def)
  note c6 = C6_fail_open[where cfg = "mkConfig (Some ''production'')" and st = ?st
      and request = ?rq and out = "Some Rejects" and rnd = "''0.5''"
      and clk = "\<lparr>tRequestId = 2000, tLimiter = 2000, tFallback = 2000, tRetryAfter = 2000,
           tStart = 2000\<rparr>"
      and t = 2000 and tM = 2000 and ident = "''1.2.3.4''" and prefix = "''dos''"
      and rule = "REDIS_RATE_LIMIT_RULES general"
      and fb = "[''dos:1.2.3.4'' \<mapsto> \<lparr>fbCount = 100, fbResetTime = 900000\<rparr>]"
      and redis = None and fault = None and s = RateLimit]
  have "checkRateLimitAwait (Some (Settles Rejects)) 2000 2000
          [''dos:1.2.3.4'' \<mapsto> \<lparr>fbCount = 100, fbResetTime = 900000\<rparr>]
          ''1.2.3.4'' (REDIS_RATE_LIMIT_RULES general) ''dos''
      = Some (checkRateLimitMemory 2000
          [''dos:1.2.3.4'' \<mapsto> \<lparr>fbCount = 100, fbResetTime = 900000\<rparr>]
          ''1.2.3.4'' (REDIS_RATE_LIMIT_RULES general) ''dos'')"
    using c6 by (rule conjunct1)
  then have r: "fst (checkRateLimit (Some Rejects) 2000 2000
          [''dos:1.2.3.4'' \<mapsto> \<lparr>fbCount = 100, fbResetTime = 900000\<rparr>]
          ''1.2.3.4'' (REDIS_RATE_LIMIT_RULES general) ''dos'')
     = \<lparr>success = False, totalCount = 101, remainingRequests = 0, resetTimeR = 900000\<rparr>"
    by (simp add: checkRateLimitAwait_def checkRateLimitMemory_def Let_def)
  have p: "protect (mkConfig (Some ''production'')) ?st ?rq
          \<lparr>tRequestId = 2000, tLimiter = 2000, tFallback = 2000, tRetryAfter = 2000, tStart = 2000\<rparr>
          ''0.5'' (Some Rejects) (Some RateLimit) = (None, ?st)"
    using c6 e i z k by blast
  from r p show ?thesis by simp
qed

section \<open>Client address\<close>

text \<open>
  Claim C8, as stated, fails for \<open>getClientIP\<close> of lib/rateLimit.ts, which the route
  handlers use: it tries the forwarded-for list first. The request of its test suite
  carries no CDN header and both \<open>x-forwarded-for\<close> and \<open>x-real-ip\<close>; the order of the claim
  gives the real-IP header, the function returns the first forwarded-for entry. With the
  CDN header \<open>cf-connecting-ip\<close> alone it returns \<open>unknown\<close>: it reads \<open>x-connecting-ip\<close>.
\<close>

theorem C8_forwarded_first_counterexample:
  "headers \<lparr>httpMethod = ''GET'',
            headers = [''x-forwarded-for'' \<mapsto> ''192.168.1.1, 10.0.0.1'', ''x-real-ip'' \<mapsto> ''172.16.0.1''],
            pathname = ''/''\<rparr> ''cf-connecting-ip'' = None
   \<and> headers \<lparr>httpMethod = ''GET'',
            headers = [''x-forwarded-for'' \<mapsto> ''192.168.1.1, 10.0.0.1'', ''x-real-ip'' \<mapsto> ''172.16.0.1''],
            pathname = ''/''\<rparr> ''x-real-ip'' = Some ''172.16.0.1''
   \<and> getClientIP \<lparr>httpMethod = ''GET'',
            headers = [''x-forwarded-for'' \<mapsto> ''192.168.1.1, 10.0.0.1'', ''x-real-ip'' \<mapsto> ''172.16.0.1''],
            pathname = ''/''\<rparr> = ''192.168.1.1''
   \<and> getClientIP \<lparr>httpMethod = ''GET'', headers = [''cf-connecting-ip'' \<mapsto> ''203.0.113.1''],
            pathname = ''/''\<rparr> = ''unknown''"
  by (simp add: getClientIP_def truthyStr_def orElseStr_def Let_def trim_def firstField_def
      isWhitespace_def)

text \<open>
  Claim C8, amended. The gate's \<open>getClientIP\<close> (lib/dosProtection.ts) takes, in this
  order, the first that is present and not empty: the CDN header \<open>cf-connecting-ip\<close>, the
  header \<open>x-real-ip\<close>, the trimmed first entry of \<open>x-forwarded-for\<close>; with none of them it
  returns the \<open>host\<close> header or, without one, \<open>unknown\<close>. The \<open>getClientIP\<close> of
  lib/rateLimit.ts takes, in this order, the first that is not empty: the trimmed first
  entry of \<open>x-forwarded-for\<close>, \<open>x-real-ip\<close>, \<open>x-connecting-ip\<close>; with none of them it
  returns \<open>unknown\<close>.
\<close>

theorem C8_client_ip_order:
  "(headers r ''cf-connecting-ip'' = Some cf \<and> cf \<noteq> [] \<longrightarrow> dosGetClientIP r = cf)
   \<and> (\<not> truthyStr (headers r ''cf-connecting-ip'') \<and> headers r ''x-real-ip'' = Some re \<and> re \<noteq> []
        \<longrightarrow> dosGetClientIP r = re)
   \<and> (\<not> truthyStr (headers r ''cf-connecting-ip'') \<and> \<not> truthyStr (headers r ''x-real-ip'')
        \<and> headers r ''x-forwarded-for'' = Some f \<and> f \<noteq> []
        \<longrightarrow> dosGetClientIP r = trim (firstField (CHR '','') f))
   \<and> (\<not> truthyStr (headers r ''cf-connecting-ip'') \<and> \<not> truthyStr (headers r ''x-real-ip'')
        \<and> \<not> truthyStr (headers r ''x-forwarded-for'')
        \<longrightarrow> dosGetClientIP r = orElseStr (headers r ''host'') ''unknown'')
   \<and> (headers r ''x-forwarded-for'' = Some f \<and> trim (firstField (CHR '','') f) \<noteq> []
        \<longrightarrow> getClientIP r = trim (firstField (CHR '','') f))
   \<and> (\<not> truthyStr (map_option (\<lambda>f. trim (firstField (CHR '','') f)) (headers r ''x-forwarded-for''))
        \<and> headers r ''x-real-ip'' = Some re \<and> re \<noteq> []
        \<longrightarrow> getClientIP r = re)
   \<and> (\<not> truthyStr (map_option (\<lambda>f. trim (firstField (CHR '','') f)) (headers r ''x-forwarded-for''))
        \<and> \<not> truthyStr (headers r ''x-real-ip'')
        \<and> headers r ''x-connecting-ip'' = Some c \<and> c \<noteq> []
        \<longrightarrow> getClientIP r = c)
   \<and> (\<not> truthyStr (map_option (\<lambda>f. trim (firstField (CHR '','') f)) (headers r ''x-forwarded-for''))
        \<and> \<not> truthyStr (headers r ''x-real-ip'') \<and> \<not> truthyStr (headers r ''x-connecting-ip'')
        \<longrightarrow> getClientIP r = ''unknown'')"
proof -
  have a: "(headers r ''cf-connecting-ip'' = Some cf \<and> cf \<noteq> [] \<longrightarrow> dosGetClientIP r = cf)
   \<and> (\<not> truthyStr (headers r ''cf-connecting-ip'') \<and> headers r ''x-real-ip'' = Some re \<and> re \<noteq> []
        \<longrightarrow> dosGetClientIP r = re)
   \<and> (\<not> truthyStr (headers r ''cf-connecting-ip'') \<and> \<not> truthyStr (headers r ''x-real-ip'')
        \<and> headers r ''x-forwarded-for'' = Some f \<and> f \<noteq> []
        \<longrightarrow> dosGetClientIP r = trim (firstField (CHR '','') f))
   \<and> (\<not> truthyStr (headers r ''cf-connecting-ip'') \<and> \<not> truthyStr (headers r ''x-real-ip'')
        \<and> \<not> truthyStr (headers r ''x-forwarded-for'')
        \<longrightarrow> dosGetClientIP r = orElseStr (headers r ''host'') ''unknown'')"
    by (simp add: dosGetClientIP_def truthyStr_def orElseStr_def Let_def)
  have b: "(headers r ''x-forwarded-for'' = Some f \<and> trim (firstField (CHR '','') f) \<noteq> []
        \<longrightarrow> getClientIP r = trim (firstField (CHR '','') f))
   \<and> (\<not> truthyStr (map_option (\<lambda>f. trim (firstField (CHR '','') f)) (headers r ''x-forwarded-for''))
        \<and> headers r ''x-real-ip'' = Some re \<and> re \<noteq> []
        \<longrightarrow> getClientIP r = re)
   \<and> (\<not> truthyStr (map_option (\<lambda>f. trim (firstField (CHR '','') f)) (headers r ''x-forwarded-for''))
        \<and> \<not> truthyStr (headers r ''x-real-ip'')
        \<and> headers r ''x-connecting-ip'' = Some c \<and> c \<noteq> []
        \<longrightarrow> getClientIP r = c)
   \<and> (\<not> truthyStr (map_option (\<lambda>f. trim (firstField (CHR '','') f)) (headers r ''x-forwarded-for''))
        \<and> \<not> truthyStr (headers r ''x-real-ip'') \<and> \<not> truthyStr (headers r ''x-connecting-ip'')
        \<longrightarrow> getClientIP r = ''unknown'')"
    by (simp add: getClientIP_def truthyStr_def orElseStr_def Let_def split: option.splits)
  from a b show ?thesis by blast
qed

text \<open>
  A request behind a CDN and a proxy, carrying all three headers: the gate takes the CDN
  header, the route handlers' function the first forwarded-for entry.
\<close>

theorem C8_client_ip_order_witness:
  "dosGetClientIP \<lparr>httpMethod = ''GET'',
       headers = [''cf-connecting-ip'' \<mapsto> ''203.0.113.1'', ''x-real-ip'' \<mapsto> ''172.16.0.1'',
                  ''x-forwarded-for'' \<mapsto> ''192.168.1.1, 10.0.0.1''],
       pathname = ''/''\<rparr> = ''203.0.113.1''
   \<and> getClientIP \<lparr>httpMethod = ''GET'',
       headers = [''cf-connecting-ip'' \<mapsto> ''203.0.113.1'', ''x-real-ip'' \<mapsto> ''172.16.0.1'',
                  ''x-forwarded-for'' \<mapsto> ''192.168.1.1, 10.0.0.1''],
       pathname = ''/''\<rparr> = ''192.168.1.1''"
proof -
  have t: "trim (firstField (CHR '','') ''192.168.1.1, 10.0.0.1'') = ''192.168.1.1''"
    by (simp add: trim_def firstField_def isWhitespace_def)
  show ?thesis
    using t C8_client_ip_order[where cf = "''203.0.113.1''" and f = "''192.168.1.1, 10.0.0.1''"
        and r = "\<lparr>httpMethod = ''GET'',
       headers = [''cf-connecting-ip'' \<mapsto> ''203.0.113.1'', ''x-real-ip'' \<mapsto> ''172.16.0.1'',
                  ''x-forwarded-for'' \<mapsto> ''192.168.1.1, 10.0.0.1''],
       pathname = ''/''\<rparr>"]
    by simp
qed

section \<open>Content-Length that is not a number\<close>

text \<open>
  Claim C10, as stated, fails at two inputs. A \<open>Content-Length\<close> header with the empty
  value is present and \<open>parseInt\<close> of it is \<open>NaN\<close>, yet the size check reports allowed and
  the request is admitted: the code tests the header value for truth, and the empty
  string is false. And a request whose value is \<open>abc\<close> is rejected with 429, not 413,
  when its address is on the block-list, which is checked first.
\<close>

theorem C10_nan_content_length_counterexample:
  "parseInt10 '''' = None
   \<and> checkRequestSize (mkConfig (Some ''production''))
        \<lparr>httpMethod = ''POST'',
         headers = [''x-real-ip'' \<mapsto> ''1.2.3.4'', ''user-agent'' \<mapsto> ''Mozilla/5.0'',
                    ''content-length'' \<mapsto> ''''],
         pathname = ''/api/plants''\<rparr> False
     = \<lparr>allowed = True, sizeOf = Some 0\<rparr>
   \<and> fst (protect (mkConfig (Some ''production''))
        \<lparr>activeRequests = [], suspiciousIPs = {}, requestCounts = Map.empty,
         fallbackStore = Map.empty, timers = []\<rparr>
        \<lparr>httpMethod = ''POST'',
         headers = [''x-real-ip'' \<mapsto> ''1.2.3.4'', ''user-agent'' \<mapsto> ''Mozilla/5.0'',
                    ''content-length'' \<mapsto> ''''],
         pathname = ''/api/plants''\<rparr>
        \<lparr>tRequestId = 2000, tLimiter = 2000, tFallback = 2000, tRetryAfter = 2000, tStart = 2000\<rparr>
        ''0.5'' None None) = None
   \<and> parseInt10 ''abc'' = None
   \<and> fst (protect (mkConfig (Some ''production''))
        \<lparr>activeRequests = [], suspiciousIPs = {''1.2.3.4''}, requestCounts = Map.empty,
         fallbackStore = Map.empty, timers = []\<rparr>
        \<lparr>httpMethod = ''POST'',
         headers = [''x-real-ip'' \<mapsto> ''1.2.3.4'', ''user-agent'' \<mapsto> ''Mozilla/5.0'',
                    ''content-length'' \<mapsto> ''abc''],
         pathname = ''/api/plants''\<rparr>
        \<lparr>tRequestId = 2000, tLimiter = 2000, tFallback = 2000, tRetryAfter = 2000, tStart = 2000\<rparr>
        ''0.5'' None None) = Some (plainResponse ''Request blocked'' 429 [])"
  by (simp add: protect_def protectTry_def mkConfig_def dosGetClientIP_def truthyStr_def
      orElseStr_def checkRequestSize_def checkConcurrentRequests_def dosCheckRateLimit_def
      selectRule_def checkRateLimit_def checkRateLimitMemory_def detectSuspiciousPatterns_def
      suspiciousAgents_def toLowerCase_def lowerChar_def truthy_simps parseInt10_def
      isWhitespace_def isDigit_def Let_def)

text \<open>
  Claim C10, amended. For every request whose \<open>Content-Length\<close> header has a value that is
  not empty and for which \<open>parseInt\<close> yields \<open>NaN\<close>, the size check reports not allowed, and
  \<open>protect\<close>, when enabled, rejects the request with 413 and leaves the state as it was,
  provided the client address is not on the block-list (and no exception is raised up to
  the size check). Requests with no \<open>Content-Length\<close> header, or with an empty one, pass
  the size check unchecked.
\<close>

theorem C10_nan_content_length:
  "(headers request ''content-length'' = Some v \<and> v \<noteq> [] \<and> parseInt10 v = None
      \<longrightarrow> checkRequestSize cfg request False = \<lparr>allowed = False, sizeOf = None\<rparr>)
   \<and> (headers request ''content-length'' = Some v \<and> v \<noteq> [] \<and> parseInt10 v = None
       \<and> enabled cfg \<and> dosGetClientIP request \<notin> suspiciousIPs st
       \<and> fault \<notin> {Some BlockList, Some SizeRead, Some SizeCheck}
      \<longrightarrow> protect cfg st request clk rnd redis fault
            = (Some (plainResponse ''Request too large'' 413 []), st))
   \<and> (headers request ''content-length'' = None \<or> headers request ''content-length'' = Some []
      \<longrightarrow> checkRequestSize cfg request False = \<lparr>allowed = True, sizeOf = Some 0\<rparr>)"
  using size_nan[of request v cfg] protect_nan[of request v cfg st fault clk rnd redis]
    size_absent[of request cfg]
  by blast

theorem C10_nan_content_length_witness:
  "parseInt10 ''abc'' = None
   \<and> protect (mkConfig (Some ''production''))
        \<lparr>activeRequests = [], suspiciousIPs = {}, requestCounts = Map.empty,
         fallbackStore = Map.empty, timers = []\<rparr>
        \<lparr>httpMethod = ''POST'',
         headers = [''x-real-ip'' \<mapsto> ''1.2.3.4'', ''user-agent'' \<mapsto> ''Mozilla/5.0'',
                    ''content-length'' \<mapsto> ''abc''],
         pathname = ''/api/plants''\<rparr>
        \<lparr>tRequestId = 2000, tLimiter = 2000, tFallback = 2000, tRetryAfter = 2000, tStart = 2000\<rparr>
        ''0.5'' None None
     = (Some \<lparr>status = 413, respHeaders = [], body = TextBody ''Request too large''\<rparr>,
        \<lparr>activeRequests = [], suspiciousIPs = {}, requestCounts = Map.empty,
         fallbackStore = Map.empty, timers = []\<rparr>)"
proof -
  have p: "parseInt10 ''abc'' = None"
    by (simp add: parseInt10_def isWhitespace_def isDigit_def)
  have e: "enabled (mkConfig (Some ''production''))"
    by (simp add: mkConfig_def)
  have i: "dosGetClientIP \<lparr>httpMethod = ''POST'',
         headers = [''x-real-ip'' \<mapsto> ''1.2.3.4'', ''user-agent'' \<mapsto> ''Mozilla/5.0'',
                    ''content-length'' \<mapsto> ''abc''],
         pathname = ''/api/plants''\<rparr> = ''1.2.3.4''"
    by (simp add: dosGetClientIP_def truthyStr_def orElseStr_def)
  show ?thesis
    using p e i C10_nan_content_length[where v = "''abc''" and cfg = "mkConfig (Some ''production'')"
        and fault = None and redis = None and rnd = "''0.5''"
        and st = "\<lparr>activeRequests = [], suspiciousIPs = {}, requestCounts = Map.empty,
           fallbackStore = Map.empty, timers = []\<rparr>"
        and request = "\<lparr>httpMethod = ''POST'',
         headers = [''x-real-ip'' \<mapsto> ''1.2.3.4'', ''user-agent'' \<mapsto> ''Mozilla/5.0'',
                    ''content-length'' \<mapsto> ''abc''],
         pathname = ''/api/plants''\<rparr>"
        and clk = "\<lparr>tRequestId = 2000, tLimiter = 2000, tFallback = 2000, tRetryAfter = 2000,
           tStart = 2000\<rparr>"]
    by (simp add: plainResponse_def)
qed


end
